theory Spec2Isabelle
  imports Complex_Main
begin

section \<open>Exceptions, tensors and the model object\<close>

text \<open>
  The Python exceptions that the two source files can meet.  Every raise of the
  source, and every raise of a library call the source makes, is a value of this type.
\<close>

datatype error =
    FileNotFoundError
  | UnidentifiedImageError
  | RuntimeError string
  | ValueError string
  | TypeError string
  | IndexError string
  | AttributeError string
  | OSError string
  | Cv2Error string
  | OtherError string

text \<open>
  A tensor (and a numpy array) is its shape together with its entries, read by index.
  Floating-point entries are idealised as reals.
\<close>

record tensor =
  shape :: "nat list"
  val :: "nat list \<Rightarrow> real"

text \<open>
  A parameter or buffer of the model is named by its dotted path, kept as the list of the
  path's components: \<open>enc1.block.0.weight\<close> is \<open>[''enc1'', ''block'', ''0'', ''weight'']\<close>.
\<close>

type_synonym pname = "string list"

text \<open>
  The model object \<open>ColorizationSDAEUNet\<close>: the constructor arguments, the entries of every
  parameter and buffer (what \<open>state_dict()\<close> holds; their shapes are fixed by the constructor
  arguments), and the train/eval mode flag of \<open>nn.Module\<close>.
\<close>

record unet =
  in_ch :: nat
  out_ch :: nat
  base_ch :: nat
  state_dict :: "pname \<Rightarrow> nat list \<Rightarrow> real"
  training :: bool

text \<open>
  A layer maps a tensor to a tensor or raises, and may update the buffers of the model.
  The model is returned on every outcome, since a raise does not undo earlier updates.
\<close>

type_synonym 'a outcome = "(error + 'a) \<times> unet"
type_synonym layer = "tensor \<Rightarrow> unet \<Rightarrow> tensor outcome"

definition and_then :: "'a outcome \<Rightarrow> ('a \<Rightarrow> unet \<Rightarrow> 'b outcome) \<Rightarrow> 'b outcome" where
  "and_then r f = (case r of (Inl e, m) \<Rightarrow> (Inl e, m) | (Inr y, m) \<Rightarrow> f y m)"

definition pure_op :: "error + 'a \<Rightarrow> unet \<Rightarrow> 'a outcome" where
  "pure_op r m = (r, m)"

section \<open>The layers of \<open>torch.nn\<close> that model.py uses\<close>

text \<open>The input of a convolution with \<open>p\<close> rows and columns of zeros added on every side.\<close>

definition zero_padded :: "tensor \<Rightarrow> nat \<Rightarrow> nat list \<Rightarrow> real" where
  "zero_padded x p idx =
     (case idx of
        [i, c, y, xx] \<Rightarrow>
          (if p \<le> y \<and> y < p + shape x ! 2 \<and> p \<le> xx \<and> xx < p + shape x ! 3
           then val x [i, c, y - p, xx - p] else 0)
      | _ \<Rightarrow> 0)"

definition conv2d_val ::
  "(nat list \<Rightarrow> real) \<Rightarrow> (nat list \<Rightarrow> real) option \<Rightarrow> nat \<Rightarrow> nat \<Rightarrow> nat \<Rightarrow> tensor
     \<Rightarrow> nat list \<Rightarrow> real" where
  "conv2d_val w b cin k p x idx =
     (case idx of
        [i, oc, y, xx] \<Rightarrow>
          (case b of None \<Rightarrow> 0 | Some bv \<Rightarrow> bv [oc])
          + (\<Sum>c<cin. \<Sum>dy<k. \<Sum>dx<k. w [oc, c, dy, dx] * zero_padded x p [i, c, y + dy, xx + dx])
      | _ \<Rightarrow> 0)"

text \<open>
  \<open>nn.Conv2d(cin, cout, kernel_size=k, padding=p, bias=has_bias)\<close>, stride 1, registered
  under the path \<open>pre\<close>.  Every convolution of model.py receives a batched (4-D) tensor;
  an input of another rank is rejected here, as the \<open>BatchNorm2d\<close> that follows each
  \<open>Conv2d\<close> of a \<open>ConvBlock\<close> would reject it.
\<close>

definition Conv2d :: "pname \<Rightarrow> nat \<Rightarrow> nat \<Rightarrow> nat \<Rightarrow> nat \<Rightarrow> bool \<Rightarrow> layer" where
  "Conv2d pre cin cout k p has_bias x m =
     (case shape x of
        [n, c, h, w] \<Rightarrow>
          if c \<noteq> cin then (Inl (RuntimeError ''conv2d: input channels''), m)
          else if h + 2 * p < k \<or> w + 2 * p < k
          then (Inl (RuntimeError ''conv2d: kernel size greater than input size''), m)
          else (Inr \<lparr>shape = [n, cout, h + 2 * p - k + 1, w + 2 * p - k + 1],
                     val = conv2d_val (state_dict m (pre @ [''weight'']))
                             (if has_bias then Some (state_dict m (pre @ [''bias''])) else None)
                             cin k p x\<rparr>, m)
      | _ \<Rightarrow> (Inl (RuntimeError ''conv2d: expected 4D input''), m))"

text \<open>Mean and (biased) variance of channel \<open>c\<close> over the batch and both spatial axes.\<close>

definition batch_mean :: "tensor \<Rightarrow> nat \<Rightarrow> real" where
  "batch_mean x c =
     (\<Sum>i<shape x ! 0. \<Sum>y<shape x ! 2. \<Sum>xx<shape x ! 3. val x [i, c, y, xx])
       / real (shape x ! 0 * shape x ! 2 * shape x ! 3)"

definition batch_var :: "tensor \<Rightarrow> nat \<Rightarrow> real" where
  "batch_var x c =
     (\<Sum>i<shape x ! 0. \<Sum>y<shape x ! 2. \<Sum>xx<shape x ! 3. (val x [i, c, y, xx] - batch_mean x c)\<^sup>2)
       / real (shape x ! 0 * shape x ! 2 * shape x ! 3)"

definition bn_eps :: real where
  "bn_eps = 1 / 100000"

definition bn_momentum :: real where
  "bn_momentum = 1 / 10"

definition normalize_val ::
  "(nat \<Rightarrow> real) \<Rightarrow> (nat \<Rightarrow> real) \<Rightarrow> (nat list \<Rightarrow> real) \<Rightarrow> (nat list \<Rightarrow> real) \<Rightarrow> tensor
     \<Rightarrow> nat list \<Rightarrow> real" where
  "normalize_val mean var gamma beta x idx =
     (case idx of
        [i, c, y, xx] \<Rightarrow> (val x idx - mean c) / sqrt (var c + bn_eps) * gamma [c] + beta [c]
      | _ \<Rightarrow> 0)"

text \<open>
  \<open>nn.BatchNorm2d(c)\<close> with its defaults (\<open>eps = 1e-5\<close>, \<open>momentum = 0.1\<close>, affine, tracking
  running statistics).  In training mode it normalises with the statistics of the batch,
  refuses a batch with a single value per channel, and updates its three buffers in place;
  in eval mode it normalises with the running statistics and updates nothing.
\<close>

definition BatchNorm2d :: "pname \<Rightarrow> nat \<Rightarrow> layer" where
  "BatchNorm2d pre c x m =
     (case shape x of
        [n, c', h, w] \<Rightarrow>
          if training m then
            if n * h * w = 1
            then (Inl (ValueError ''Expected more than 1 value per channel when training''), m)
            else if c' \<noteq> c then (Inl (RuntimeError ''batch_norm: number of features''), m)
            else
              (Inr \<lparr>shape = shape x,
                    val = normalize_val (batch_mean x) (batch_var x)
                            (state_dict m (pre @ [''weight''])) (state_dict m (pre @ [''bias''])) x\<rparr>,
               m\<lparr>state_dict := (state_dict m)
                   (pre @ [''running_mean''] :=
                      (\<lambda>idx. (1 - bn_momentum) * state_dict m (pre @ [''running_mean'']) idx
                              + bn_momentum * batch_mean x (hd idx)),
                    pre @ [''running_var''] :=
                      (\<lambda>idx. (1 - bn_momentum) * state_dict m (pre @ [''running_var'']) idx
                              + bn_momentum * (batch_var x (hd idx) * real (n * h * w)
                                                 / real (n * h * w - 1))),
                    pre @ [''num_batches_tracked''] :=
                      (\<lambda>idx. state_dict m (pre @ [''num_batches_tracked'']) idx + 1))\<rparr>)
          else if c' \<noteq> c then (Inl (RuntimeError ''batch_norm: number of features''), m)
          else
            (Inr \<lparr>shape = shape x,
                  val = normalize_val (\<lambda>ch. state_dict m (pre @ [''running_mean'']) [ch])
                          (\<lambda>ch. state_dict m (pre @ [''running_var'']) [ch])
                          (state_dict m (pre @ [''weight''])) (state_dict m (pre @ [''bias''])) x\<rparr>,
             m)
      | _ \<Rightarrow> (Inl (ValueError ''expected 4D input''), m))"

text \<open>\<open>nn.ReLU(inplace=True)\<close>: the tensor it overwrites is the fresh output of the layer before.\<close>

definition ReLU :: layer where
  "ReLU x m = (Inr \<lparr>shape = shape x, val = (\<lambda>idx. max 0 (val x idx))\<rparr>, m)"

text \<open>\<open>nn.MaxPool2d(2)\<close>: window 2, stride 2, no padding, floor mode.\<close>

definition MaxPool2d :: layer where
  "MaxPool2d x m =
     (case shape x of
        [n, c, h, w] \<Rightarrow>
          if h div 2 = 0 \<or> w div 2 = 0
          then (Inl (RuntimeError ''max_pool2d: Output size is too small''), m)
          else (Inr \<lparr>shape = [n, c, h div 2, w div 2],
                     val = (\<lambda>idx. case idx of
                              [i, ch, y, xx] \<Rightarrow>
                                max (max (val x [i, ch, 2 * y, 2 * xx]) (val x [i, ch, 2 * y, 2 * xx + 1]))
                                    (max (val x [i, ch, 2 * y + 1, 2 * xx])
                                         (val x [i, ch, 2 * y + 1, 2 * xx + 1]))
                            | _ \<Rightarrow> 0)\<rparr>, m)
      | _ \<Rightarrow> (Inl (RuntimeError ''max_pool2d: expected 4D input''), m))"

text \<open>\<open>nn.ConvTranspose2d(cin, cout, kernel_size=2, stride=2)\<close>, with bias.\<close>

definition ConvTranspose2d :: "pname \<Rightarrow> nat \<Rightarrow> nat \<Rightarrow> layer" where
  "ConvTranspose2d pre cin cout x m =
     (case shape x of
        [n, c, h, w] \<Rightarrow>
          if c \<noteq> cin then (Inl (RuntimeError ''conv_transpose2d: input channels''), m)
          else (Inr \<lparr>shape = [n, cout, 2 * h, 2 * w],
                     val = (\<lambda>idx. case idx of
                              [i, oc, y, xx] \<Rightarrow>
                                state_dict m (pre @ [''bias'']) [oc]
                                + (\<Sum>ci<cin. val x [i, ci, y div 2, xx div 2]
                                              * state_dict m (pre @ [''weight'']) [ci, oc, y mod 2, xx mod 2])
                            | _ \<Rightarrow> 0)\<rparr>, m)
      | _ \<Rightarrow> (Inl (RuntimeError ''conv_transpose2d: expected 4D input''), m))"

text \<open>
  \<open>F.pad(x, [l, r, t, b])\<close> in constant mode: zeros are added on the left and right of the
  last axis and on the top and bottom of the axis before it; a negative amount crops.
\<close>

definition pad :: "tensor \<Rightarrow> int \<Rightarrow> int \<Rightarrow> int \<Rightarrow> int \<Rightarrow> error + tensor" where
  "pad x l r t b =
     (case shape x of
        [n, c, h, w] \<Rightarrow>
          if int h + t + b < 0 \<or> int w + l + r < 0
          then Inl (RuntimeError ''pad: resulting size is negative'')
          else Inr \<lparr>shape = [n, c, nat (int h + t + b), nat (int w + l + r)],
                    val = (\<lambda>idx. case idx of
                             [i, ch, y, xx] \<Rightarrow>
                               (if 0 \<le> int y - t \<and> int y - t < int h \<and> 0 \<le> int xx - l \<and> int xx - l < int w
                                then val x [i, ch, nat (int y - t), nat (int xx - l)] else 0)
                           | _ \<Rightarrow> 0)\<rparr>
      | _ \<Rightarrow> Inl (RuntimeError ''pad: expected 4D input''))"

text \<open>\<open>torch.cat([a, b], dim=1)\<close>: all axes but the channel axis must agree.\<close>

definition cat_channels :: "tensor \<Rightarrow> tensor \<Rightarrow> error + tensor" where
  "cat_channels a b =
     (case (shape a, shape b) of
        ([n, c, h, w], [n', c', h', w']) \<Rightarrow>
          if n \<noteq> n' \<or> h \<noteq> h' \<or> w \<noteq> w'
          then Inl (RuntimeError ''cat: Sizes of tensors must match except in dimension 1'')
          else Inr \<lparr>shape = [n, c + c', h, w],
                    val = (\<lambda>idx. case idx of
                             [i, ch, y, xx] \<Rightarrow>
                               (if ch < c then val a [i, ch, y, xx] else val b [i, ch - c, y, xx])
                           | _ \<Rightarrow> 0)\<rparr>
      | _ \<Rightarrow> Inl (RuntimeError ''cat: expected 4D tensors''))"

text \<open>\<open>nn.Sequential\<close>: the layers run in order, each on the output of the one before.\<close>

fun Sequential :: "layer list \<Rightarrow> layer" where
  "Sequential [] x m = (Inr x, m)"
| "Sequential (l # ls) x m = and_then (l x m) (Sequential ls)"

section \<open>model.py\<close>

text \<open>\<open>ConvBlock(cin, cout)\<close> registered under \<open>pre\<close>; its \<open>forward\<close> runs \<open>self.block\<close>.\<close>

definition ConvBlock :: "pname \<Rightarrow> nat \<Rightarrow> nat \<Rightarrow> layer" where
  "ConvBlock pre cin cout =
     Sequential
       [Conv2d (pre @ [''block'', ''0'']) cin cout 3 1 False,
        BatchNorm2d (pre @ [''block'', ''1'']) cout,
        ReLU,
        Conv2d (pre @ [''block'', ''3'']) cout cout 3 1 False,
        BatchNorm2d (pre @ [''block'', ''4'']) cout,
        ReLU]"

text \<open>
  The branch of \<open>UpBlock.forward\<close> between \<open>self.up\<close> and \<open>torch.cat\<close>: when the last two axes
  of the upsampled tensor differ from those of the skip tensor, it is padded by
  \<open>diff // 2\<close> before and \<open>diff - diff // 2\<close> after, on both axes (\<open>//\<close> is floor division).
\<close>

definition match_skip :: "tensor \<Rightarrow> tensor \<Rightarrow> error + tensor" where
  "match_skip x skip =
     (case (shape x, shape skip) of
        ([n, c, h, w], [n', c', h', w']) \<Rightarrow>
          if (h, w) \<noteq> (h', w') then
            (let diff_y = int h' - int h; diff_x = int w' - int w
             in pad x (diff_x div 2) (diff_x - diff_x div 2) (diff_y div 2) (diff_y - diff_y div 2))
          else Inr x
      | _ \<Rightarrow> Inl (IndexError ''Dimension out of range''))"

definition UpBlock_forward :: "pname \<Rightarrow> nat \<Rightarrow> nat \<Rightarrow> tensor \<Rightarrow> tensor \<Rightarrow> unet \<Rightarrow> tensor outcome" where
  "UpBlock_forward pre cin cout x skip m =
     and_then (ConvTranspose2d (pre @ [''up'']) cin cout x m) (\<lambda>x m.
     and_then (pure_op (match_skip x skip) m) (\<lambda>x m.
     and_then (pure_op (cat_channels skip x) m)
       (ConvBlock (pre @ [''conv'']) (cout * 2) cout)))"

text \<open>
  \<open>ColorizationSDAEUNet.forward\<close>.  The sub-modules are those the constructor registers:
  four encoder blocks, the shared pooling layer, the bottleneck, four decoder blocks and
  the 1x1 output convolution (with bias, and nothing after it).
\<close>

definition forward :: layer where
  "forward x m =
     and_then (ConvBlock [''enc1''] (in_ch m) (base_ch m) x m) (\<lambda>e1 m.
     and_then (MaxPool2d e1 m) (\<lambda>p1 m.
     and_then (ConvBlock [''enc2''] (base_ch m) (base_ch m * 2) p1 m) (\<lambda>e2 m.
     and_then (MaxPool2d e2 m) (\<lambda>p2 m.
     and_then (ConvBlock [''enc3''] (base_ch m * 2) (base_ch m * 4) p2 m) (\<lambda>e3 m.
     and_then (MaxPool2d e3 m) (\<lambda>p3 m.
     and_then (ConvBlock [''enc4''] (base_ch m * 4) (base_ch m * 8) p3 m) (\<lambda>e4 m.
     and_then (MaxPool2d e4 m) (\<lambda>p4 m.
     and_then (ConvBlock [''bottleneck''] (base_ch m * 8) (base_ch m * 16) p4 m) (\<lambda>b m.
     and_then (UpBlock_forward [''up4''] (base_ch m * 16) (base_ch m * 8) b e4 m) (\<lambda>d4 m.
     and_then (UpBlock_forward [''up3''] (base_ch m * 8) (base_ch m * 4) d4 e3 m) (\<lambda>d3 m.
     and_then (UpBlock_forward [''up2''] (base_ch m * 4) (base_ch m * 2) d3 e2 m) (\<lambda>d2 m.
     and_then (UpBlock_forward [''up1''] (base_ch m * 2) (base_ch m) d2 e1 m) (\<lambda>d1 m.
     Conv2d [''out_conv''] (base_ch m) (out_ch m) 1 0 True d1 m)))))))))))))"

text \<open>
  The constructors.  \<open>BatchNorm2d\<close> starts with weight 1, bias 0, running mean 0, running
  variance 1 and no batch tracked; the convolutions keep the random draw \<open>init\<close> of their
  weights and biases.  \<open>nn.Module\<close> starts in training mode.
\<close>

definition BatchNorm2d_init :: "pname \<Rightarrow> (pname \<Rightarrow> nat list \<Rightarrow> real) \<Rightarrow> pname \<Rightarrow> nat list \<Rightarrow> real" where
  "BatchNorm2d_init pre sd =
     sd(pre @ [''weight''] := (\<lambda>idx. 1),
        pre @ [''bias''] := (\<lambda>idx. 0),
        pre @ [''running_mean''] := (\<lambda>idx. 0),
        pre @ [''running_var''] := (\<lambda>idx. 1),
        pre @ [''num_batches_tracked''] := (\<lambda>idx. 0))"

definition ConvBlock_init :: "pname \<Rightarrow> (pname \<Rightarrow> nat list \<Rightarrow> real) \<Rightarrow> pname \<Rightarrow> nat list \<Rightarrow> real" where
  "ConvBlock_init pre sd =
     BatchNorm2d_init (pre @ [''block'', ''4'']) (BatchNorm2d_init (pre @ [''block'', ''1'']) sd)"

definition UpBlock_init :: "pname \<Rightarrow> (pname \<Rightarrow> nat list \<Rightarrow> real) \<Rightarrow> pname \<Rightarrow> nat list \<Rightarrow> real" where
  "UpBlock_init pre sd = ConvBlock_init (pre @ [''conv'']) sd"

definition ColorizationSDAEUNet :: "(pname \<Rightarrow> nat list \<Rightarrow> real) \<Rightarrow> nat \<Rightarrow> nat \<Rightarrow> nat \<Rightarrow> unet" where
  "ColorizationSDAEUNet init i_ch o_ch b_ch =
     \<lparr>in_ch = i_ch, out_ch = o_ch, base_ch = b_ch,
      state_dict =
        UpBlock_init [''up1''] (UpBlock_init [''up2''] (UpBlock_init [''up3''] (UpBlock_init [''up4'']
          (ConvBlock_init [''bottleneck'']
            (ConvBlock_init [''enc4''] (ConvBlock_init [''enc3''] (ConvBlock_init [''enc2'']
              (ConvBlock_init [''enc1''] init)))))))),
      training = True\<rparr>"

text \<open>\<open>model.eval()\<close>.\<close>

definition eval_mode :: "unet \<Rightarrow> unet" where
  "eval_mode m = m\<lparr>training := False\<rparr>"

text \<open>
  The entries of \<open>model.state_dict()\<close> with their shapes, as the constructors register
  them.
\<close>

definition BatchNorm2d_entries :: "pname \<Rightarrow> nat \<Rightarrow> (pname \<times> nat list) list" where
  "BatchNorm2d_entries pre c =
     [(pre @ [''weight''], [c]), (pre @ [''bias''], [c]), (pre @ [''running_mean''], [c]),
      (pre @ [''running_var''], [c]), (pre @ [''num_batches_tracked''], [])]"

definition ConvBlock_entries :: "pname \<Rightarrow> nat \<Rightarrow> nat \<Rightarrow> (pname \<times> nat list) list" where
  "ConvBlock_entries pre cin cout =
     [(pre @ [''block'', ''0'', ''weight''], [cout, cin, 3, 3])]
     @ BatchNorm2d_entries (pre @ [''block'', ''1'']) cout
     @ [(pre @ [''block'', ''3'', ''weight''], [cout, cout, 3, 3])]
     @ BatchNorm2d_entries (pre @ [''block'', ''4'']) cout"

definition UpBlock_entries :: "pname \<Rightarrow> nat \<Rightarrow> nat \<Rightarrow> (pname \<times> nat list) list" where
  "UpBlock_entries pre cin cout =
     [(pre @ [''up'', ''weight''], [cin, cout, 2, 2]), (pre @ [''up'', ''bias''], [cout])]
     @ ConvBlock_entries (pre @ [''conv'']) (cout * 2) cout"

definition model_entries :: "unet \<Rightarrow> (pname \<times> nat list) list" where
  "model_entries m =
     ConvBlock_entries [''enc1''] (in_ch m) (base_ch m)
     @ ConvBlock_entries [''enc2''] (base_ch m) (base_ch m * 2)
     @ ConvBlock_entries [''enc3''] (base_ch m * 2) (base_ch m * 4)
     @ ConvBlock_entries [''enc4''] (base_ch m * 4) (base_ch m * 8)
     @ ConvBlock_entries [''bottleneck''] (base_ch m * 8) (base_ch m * 16)
     @ UpBlock_entries [''up4''] (base_ch m * 16) (base_ch m * 8)
     @ UpBlock_entries [''up3''] (base_ch m * 8) (base_ch m * 4)
     @ UpBlock_entries [''up2''] (base_ch m * 4) (base_ch m * 2)
     @ UpBlock_entries [''up1''] (base_ch m * 2) (base_ch m)
     @ [([''out_conv'', ''weight''], [out_ch m, base_ch m, 1, 1]), ([''out_conv'', ''bias''], [out_ch m])]"

text \<open>
  \<open>lab_denormalize\<close>, on the arithmetic of its lines 96 and 97, and the luminance
  normalisation of \<open>preprocess_image\<close> (app.py, line 68).
\<close>

definition L_norm :: "real \<Rightarrow> real" where
  "L_norm L = (L / 50) - 1"

definition L_denorm :: "real \<Rightarrow> real" where
  "L_denorm L_np = (L_np + 1) * 50"

definition ab_denorm :: "real \<Rightarrow> real" where
  "ab_denorm ab_np = ab_np * 128"

text \<open>
  Modelled from the spec: the normalisation of a chrominance value, which the training
  side applies and which is not among the source files ("normalized units
  (divide-by-128 scale)").
\<close>

definition ab_norm :: "real \<Rightarrow> real" where
  "ab_norm v = v / 128"

text \<open>
  The library functions whose values no property below depends on are parameters: the
  colour conversions of OpenCV on one pixel, Pillow's Lanczos resampling (pixels and size of
  the source, size of the target) and Pillow's conversion to RGB with the modes it accepts.
\<close>

type_synonym pixels = "nat \<Rightarrow> nat \<Rightarrow> nat \<Rightarrow> nat"

record image =
  img_size :: "nat \<times> nat"
  mode :: string
  pixel :: pixels

record lib =
  rgb_convertible :: "string \<Rightarrow> bool"
  convert_rgb :: "image \<Rightarrow> pixels"
  lanczos :: "pixels \<Rightarrow> nat \<times> nat \<Rightarrow> nat \<times> nat \<Rightarrow> pixels"
  rgb2lab :: "real \<times> real \<times> real \<Rightarrow> real \<times> real \<times> real"
  lab2rgb :: "real \<times> real \<times> real \<Rightarrow> real \<times> real \<times> real"

definition channel :: "real \<times> real \<times> real \<Rightarrow> nat \<Rightarrow> real" where
  "channel p c = (case p of (x, y, z) \<Rightarrow> if c = 0 then x else if c = 1 then y else z)"

definition clip :: "real \<Rightarrow> real \<Rightarrow> real \<Rightarrow> real" where
  "clip v lo hi = min hi (max lo v)"

definition lab_denormalize :: "lib \<Rightarrow> tensor \<Rightarrow> tensor \<Rightarrow> error + tensor" where
  "lab_denormalize lb L ab =
     (case (shape L, shape ab) of
        ([n, c, h, w], [n', c', h', w']) \<Rightarrow>
          if n \<noteq> n' \<or> h \<noteq> h' \<or> w \<noteq> w'
          then Inl (ValueError ''concatenate: all the input array dimensions except for the concatenation axis must match'')
          else if n = 0 then Inl (ValueError ''need at least one array to stack'')
          else if c + c' \<noteq> 3 \<or> h = 0 \<or> w = 0 then Inl (Cv2Error ''cvtColor'')
          else
            Inr \<lparr>shape = [n, h, w, 3],
                 val = (\<lambda>idx. case idx of
                          [i, y, xx, ch] \<Rightarrow>
                            (let lab = (\<lambda>k. if k < c then L_denorm (val L [i, k, y, xx])
                                            else ab_denorm (val ab [i, k - c, y, xx]))
                             in clip (channel (lab2rgb lb (lab 0, lab 1, lab 2)) ch) 0 1)
                        | _ \<Rightarrow> 0)\<rparr>
      | _ \<Rightarrow> Inl (ValueError ''concatenate: all the input arrays must have same number of dimensions''))"

section \<open>app.py\<close>

text \<open>
  A request or response body is known by how Pillow decodes it: not at all
  (\<open>Image.open\<close> raises \<open>UnidentifiedImageError\<close>); with a readable header but pixel data
  that stops early (\<open>Image.open\<close> returns, and the loading of the pixels that \<open>convert\<close>
  starts raises \<open>OSError\<close>); or to an image.  Saving an image as PNG gives bytes that
  decode to that image.
\<close>

datatype payload = Undecodable "nat list" | Truncated image | Encoded image

definition IMAGE_SIZE :: nat where
  "IMAGE_SIZE = 256"

definition MODEL_PATH :: string where
  "MODEL_PATH = ''colorization_sdae_unet_best.pth''"

text \<open>A printed line: a text, or a text followed by \<open>str(e)\<close> of an exception.\<close>

datatype printed = Line string | Line_with string error

text \<open>
  \<open>Image.resize(size, LANCZOS)\<close>: Pillow refuses an empty source ("box can't be empty") and
  an empty target ("height and width must be > 0").
\<close>

definition resize :: "lib \<Rightarrow> image \<Rightarrow> nat \<times> nat \<Rightarrow> error + image" where
  "resize lb img sz =
     (if fst (img_size img) = 0 \<or> snd (img_size img) = 0 then Inl (ValueError ''box can't be empty'')
      else if fst sz = 0 \<or> snd sz = 0 then Inl (ValueError ''height and width must be > 0'')
      else Inr (img\<lparr>img_size := sz, pixel := lanczos lb (pixel img) (img_size img) sz\<rparr>))"

definition preprocess_image :: "lib \<Rightarrow> payload \<Rightarrow> error + tensor \<times> (nat \<times> nat)" where
  "preprocess_image lb image_bytes =
     (case image_bytes of
        Undecodable bs \<Rightarrow> Inl UnidentifiedImageError
      | Truncated opened \<Rightarrow> Inl (OSError ''image file is truncated'')
      | Encoded opened \<Rightarrow>
          if \<not> rgb_convertible lb (mode opened) then Inl (ValueError ''conversion to RGB not supported'')
          else
            (let img = opened\<lparr>mode := ''RGB'', pixel := convert_rgb lb opened\<rparr>;
                 original_size = img_size img
             in case resize lb img (IMAGE_SIZE, IMAGE_SIZE) of
                  Inl e \<Rightarrow> Inl e
                | Inr img \<Rightarrow>
                    (let rgb = (\<lambda>y xx. (real (pixel img y xx 0) / 255, real (pixel img y xx 1) / 255,
                                         real (pixel img y xx 2) / 255));
                         L = (\<lambda>y xx. channel (rgb2lab lb (rgb y xx)) 0)
                     in Inr (\<lparr>shape = [1, 1, snd (img_size img), fst (img_size img)],
                              val = (\<lambda>idx. case idx of [i, c, y, xx] \<Rightarrow> L_norm (L y xx) | _ \<Rightarrow> 0)\<rparr>,
                             original_size))))"

text \<open>
  The objects \<open>torch.load\<close> can return, as far as the loading block looks into them: a
  tensor, a dictionary with string keys, or something else.
\<close>

datatype pyval =
    PTensor "nat list" "nat list \<Rightarrow> real"
  | PDict "(string \<times> pyval) list"
  | PObject string

text \<open>What \<open>torch.load(MODEL_PATH, ...)\<close> meets on disk.\<close>

datatype checkpoint_file = Absent | Unreadable string | Pickled pyval

text \<open>\<open>key in obj\<close> and \<open>obj[key]\<close>.\<close>

definition contains :: "pyval \<Rightarrow> string \<Rightarrow> error + bool" where
  "contains obj key =
     (case obj of
        PDict kvs \<Rightarrow> Inr (key \<in> fst ` set kvs)
      | PTensor shp v \<Rightarrow> Inl (RuntimeError ''Tensor.__contains__ only supports Tensor or scalar'')
      | PObject d \<Rightarrow> Inl (TypeError ''argument is not iterable''))"

definition getitem :: "pyval \<Rightarrow> string \<Rightarrow> error + pyval" where
  "getitem obj key =
     (case obj of
        PDict kvs \<Rightarrow> (case map_of kvs key of Some v \<Rightarrow> Inr v | None \<Rightarrow> Inl (OtherError ''KeyError''))
      | PTensor shp v \<Rightarrow> Inl (IndexError ''too many indices for tensor'')
      | PObject d \<Rightarrow> Inl (TypeError ''object is not subscriptable''))"

fun dotted :: "pname \<Rightarrow> string" where
  "dotted [] = []"
| "dotted [a] = a"
| "dotted (a # b # r) = a @ ''.'' @ dotted (b # r)"

text \<open>
  \<open>model.load_state_dict(sd)\<close>, strict: every entry of the model whose name is in \<open>sd\<close> with
  a tensor of the same shape is overwritten in place; then a missing name, a name the
  model does not have, or a tensor of another shape raises.  (This is the behaviour on a
  state dict of the current format; one written before \<open>num_batches_tracked\<close> existed
  may omit that entry.)
\<close>

definition load_state_dict :: "pyval \<Rightarrow> unet \<Rightarrow> unit outcome" where
  "load_state_dict sd m =
     (case sd of
        PDict kvs \<Rightarrow>
          (let fits = (\<lambda>(k, shp). case map_of kvs (dotted k) of
                                     Some (PTensor shp' v) \<Rightarrow> shp' = shp | _ \<Rightarrow> False);
               copied = (\<lambda>k. case map_of (model_entries m) k of
                                None \<Rightarrow> state_dict m k
                              | Some shp \<Rightarrow>
                                  (case map_of kvs (dotted k) of
                                     Some (PTensor shp' v) \<Rightarrow> if shp' = shp then v else state_dict m k
                                   | _ \<Rightarrow> state_dict m k))
           in (if list_all fits (model_entries m)
                  \<and> list_all (\<lambda>(key, v). key \<in> dotted ` fst ` set (model_entries m)) kvs
               then Inr () else Inl (RuntimeError ''Error(s) in loading state_dict''),
               m\<lparr>state_dict := copied\<rparr>))
      | _ \<Rightarrow> (Inl (TypeError ''Expected state_dict to be dict-like''), m))"

text \<open>Lines 40 to 48: which object is handed to \<open>load_state_dict\<close>.\<close>

definition load_checkpoint :: "pyval \<Rightarrow> unet \<Rightarrow> unit outcome" where
  "load_checkpoint checkpoint m =
     (case contains checkpoint ''model_state'' of
        Inl e \<Rightarrow> (Inl e, m)
      | Inr True \<Rightarrow>
          (case getitem checkpoint ''model_state'' of
             Inl e \<Rightarrow> (Inl e, m) | Inr sd \<Rightarrow> load_state_dict sd m)
      | Inr False \<Rightarrow>
     (case contains checkpoint ''model_state_dict'' of
        Inl e \<Rightarrow> (Inl e, m)
      | Inr True \<Rightarrow>
          (case getitem checkpoint ''model_state_dict'' of
             Inl e \<Rightarrow> (Inl e, m) | Inr sd \<Rightarrow> load_state_dict sd m)
      | Inr False \<Rightarrow>
     (case contains checkpoint ''state_dict'' of
        Inl e \<Rightarrow> (Inl e, m)
      | Inr True \<Rightarrow>
          (case getitem checkpoint ''state_dict'' of
             Inl e \<Rightarrow> (Inl e, m) | Inr sd \<Rightarrow> load_state_dict sd m)
      | Inr False \<Rightarrow> load_state_dict checkpoint m)))"

text \<open>
  The state of the process: the module-level names of app.py that the loading block and
  the request handler read or write, the binding \<open>pathlib.PosixPath\<close>, and what was printed.
\<close>

datatype path_class = PosixPath | WindowsPath

record app =
  DEVICE :: string
  model :: unet
  temp :: path_class
  checkpoint :: "pyval option"
  pathlib_PosixPath :: path_class
  stdout :: "printed list"

record environment =
  cuda_is_available :: bool
  initial_weights :: "pname \<Rightarrow> nat list \<Rightarrow> real"
  MODEL_PATH_file :: checkpoint_file

text \<open>
  Lines 23 to 55.  The body of the \<open>try\<close> returns the exception it stops at together with the
  state it has reached; the two handlers print and go on.  All exceptions of the model
  are subclasses of \<open>Exception\<close>, so nothing leaves the block.
\<close>

definition try_load :: "environment \<Rightarrow> app \<Rightarrow> (error + unit) \<times> app" where
  "try_load env s =
     (let s = s\<lparr>temp := pathlib_PosixPath s\<rparr>;
          s = s\<lparr>pathlib_PosixPath := WindowsPath\<rparr>
      in case MODEL_PATH_file env of
           Absent \<Rightarrow> (Inl FileNotFoundError, s)
         | Unreadable msg \<Rightarrow> (Inl (OtherError msg), s)
         | Pickled obj \<Rightarrow>
             (let s = s\<lparr>checkpoint := Some obj\<rparr>;
                  s = s\<lparr>pathlib_PosixPath := temp s\<rparr>
              in case load_checkpoint obj (model s) of
                   (Inl e, m) \<Rightarrow> (Inl e, s\<lparr>model := m\<rparr>)
                 | (Inr u, m) \<Rightarrow>
                     (Inr (), s\<lparr>model := eval_mode m,
                                stdout := stdout s @ [Line (''Model loaded successfully from '' @ MODEL_PATH)]\<rparr>)))"

definition startup :: "environment \<Rightarrow> error + app" where
  "startup env =
     (let s = \<lparr>DEVICE = (if cuda_is_available env then ''cuda'' else ''cpu''),
               model = ColorizationSDAEUNet (initial_weights env) 1 2 64,
               temp = PosixPath, checkpoint = None, pathlib_PosixPath = PosixPath, stdout = []\<rparr>
      in case try_load env s of
           (Inr u, s) \<Rightarrow> Inr s
         | (Inl FileNotFoundError, s) \<Rightarrow>
             Inr (s\<lparr>stdout := stdout s
                    @ [Line (''WARNING: Model file not found at '' @ MODEL_PATH
                             @ ''. Inference will use random weights.'')]\<rparr>)
         | (Inl e, s) \<Rightarrow> Inr (s\<lparr>stdout := stdout s @ [Line_with ''ERROR loading model: '' e]\<rparr>))"

text \<open>
  The names bound at module level once the loading block has run, with the kind of object
  each is bound to.  \<open>temp\<close> is bound by the first statement of the \<open>try\<close>; \<open>checkpoint\<close> only
  when \<open>torch.load\<close> has returned.
\<close>

datatype pyobj =
    Module | Class | Function | Application
  | PyStr string | PyInt int | PyBool bool
  | Model unet | PathClass path_class | Loaded pyval

definition module_globals :: "app \<Rightarrow> (string \<times> pyobj) list" where
  "module_globals s =
     [(''io'', Module), (''cv2'', Module), (''np'', Module), (''torch'', Module), (''pathlib'', Module),
      (''FastAPI'', Class), (''File'', Function), (''UploadFile'', Class), (''HTTPException'', Class),
      (''Response'', Class), (''CORSMiddleware'', Class), (''Image'', Module),
      (''ColorizationSDAEUNet'', Class), (''lab_denormalize'', Function),
      (''app'', Application),
      (''DEVICE'', PyStr (DEVICE s)),
      (''MODEL_PATH'', PyStr MODEL_PATH),
      (''IMAGE_SIZE'', PyInt (int IMAGE_SIZE)),
      (''model'', Model (model s)),
      (''temp'', PathClass (temp s))]
     @ (case checkpoint s of None \<Rightarrow> [] | Some obj \<Rightarrow> [(''checkpoint'', Loaded obj)])
     @ [(''preprocess_image'', Function), (''colorize'', Function)]"

text \<open>The module-level names bound to a truth value: what a status flag would be.\<close>

definition status_flags :: "app \<Rightarrow> (string \<times> bool) list" where
  "status_flags s = [(name, b). (name, PyBool b) \<leftarrow> module_globals s]"

text \<open>The request handler.\<close>

record upload =
  content_type :: "string option"
  contents :: payload

datatype detail = Text string | Str_of error

datatype response =
    HTTPException nat detail
  | Response payload string
  | Unhandled error

definition astype_uint8 :: "real \<Rightarrow> nat" where
  "astype_uint8 v = nat \<lfloor>v\<rfloor> mod 256"

definition fromarray :: "tensor \<Rightarrow> error + image" where
  "fromarray a =
     (case shape a of
        [h, w, c] \<Rightarrow>
          if c = 3
          then Inr \<lparr>img_size = (w, h), mode = ''RGB'',
                    pixel = (\<lambda>y xx ch. astype_uint8 (val a [y, xx, ch]))\<rparr>
          else Inl (TypeError ''Cannot handle this data type'')
      | _ \<Rightarrow> Inl (TypeError ''Cannot handle this data type''))"

definition first_of_batch :: "tensor \<Rightarrow> error + tensor" where
  "first_of_batch a =
     (case shape a of
        n # rest \<Rightarrow>
          if n = 0 then Inl (IndexError ''index 0 is out of bounds for axis 0 with size 0'')
          else Inr \<lparr>shape = rest, val = (\<lambda>idx. val a (0 # idx))\<rparr>
      | [] \<Rightarrow> Inl (IndexError ''too many indices for array''))"

definition times_255 :: "tensor \<Rightarrow> tensor" where
  "times_255 a = \<lparr>shape = shape a, val = (\<lambda>idx. val a idx * 255)\<rparr>"

definition colorize_body :: "lib \<Rightarrow> payload \<Rightarrow> unet \<Rightarrow> payload outcome" where
  "colorize_body lb image_bytes m =
     (case preprocess_image lb image_bytes of
        Inl e \<Rightarrow> (Inl e, m)
      | Inr (L_tensor, original_size) \<Rightarrow>
          and_then (forward L_tensor m) (\<lambda>ab_pred m.
            (case lab_denormalize lb L_tensor ab_pred of
               Inl e \<Rightarrow> Inl e
             | Inr rgb_out \<Rightarrow>
                 (case first_of_batch rgb_out of
                    Inl e \<Rightarrow> Inl e
                  | Inr rgb_out \<Rightarrow>
                      (case fromarray (times_255 rgb_out) of
                         Inl e \<Rightarrow> Inl e
                       | Inr out_img \<Rightarrow>
                           (case resize lb out_img original_size of
                              Inl e \<Rightarrow> Inl e
                            | Inr out_img \<Rightarrow> Inr (Encoded out_img)))),
             m)))"

definition colorize :: "lib \<Rightarrow> upload \<Rightarrow> app \<Rightarrow> response \<times> app" where
  "colorize lb file s =
     (case content_type file of
        None \<Rightarrow> (Unhandled (AttributeError ''NoneType has no attribute startswith''), s)
      | Some ct \<Rightarrow>
          if take 6 ct \<noteq> ''image/'' then (HTTPException 400 (Text ''File must be an image''), s)
          else
            (case colorize_body lb (contents file) (model s) of
               (Inl e, m) \<Rightarrow> (HTTPException 500 (Str_of e), s\<lparr>model := m\<rparr>)
             | (Inr png, m) \<Rightarrow> (Response png ''image/png'', s\<lparr>model := m\<rparr>)))"

text \<open>The states of the process: the one after start-up, and those after each request.\<close>

inductive reachable :: "lib \<Rightarrow> environment \<Rightarrow> app \<Rightarrow> bool" for lb env where
  started: "startup env = Inr s \<Longrightarrow> reachable lb env s"
| served: "reachable lb env s \<Longrightarrow> reachable lb env (snd (colorize lb file s))"

section \<open>What a forward pass may change\<close>

text \<open>
  The buffers of the model are the three tensors every \<open>BatchNorm2d\<close> registers beside its
  two parameters.
\<close>

definition is_buffer :: "pname \<Rightarrow> bool" where
  "is_buffer k = (k \<noteq> [] \<and> last k \<in> set [''running_mean'', ''running_var'', ''num_batches_tracked''])"

text \<open>
  \<open>same_weights m m'\<close>: the two model objects have the same constructor arguments, the same
  mode and the same learned parameters; they may differ in their buffers.
\<close>

definition same_weights :: "unet \<Rightarrow> unet \<Rightarrow> bool" where
  "same_weights m m' =
     (in_ch m' = in_ch m \<and> out_ch m' = out_ch m \<and> base_ch m' = base_ch m
      \<and> training m' = training m
      \<and> (\<forall>k. \<not> is_buffer k \<longrightarrow> state_dict m' k = state_dict m k))"

text \<open>
  \<open>evolves m m'\<close>: \<open>m'\<close> is a state the model object \<open>m\<close> can be in after running layers:
  the parameters are kept, and in eval mode so is everything else.
\<close>

definition evolves :: "unet \<Rightarrow> unet \<Rightarrow> bool" where
  "evolves m m' = (same_weights m m' \<and> (\<not> training m \<longrightarrow> m' = m))"

section \<open>Reading the responses\<close>

definition is_client_error :: "response \<Rightarrow> bool" where
  "is_client_error r = (case r of HTTPException status d \<Rightarrow> 400 \<le> status \<and> status < 500 | _ \<Rightarrow> False)"

definition is_server_error :: "response \<Rightarrow> bool" where
  "is_server_error r =
     (case r of HTTPException status d \<Rightarrow> 500 \<le> status \<and> status < 600
      | Unhandled e \<Rightarrow> True | _ \<Rightarrow> False)"

section \<open>Sample inputs\<close>

text \<open>
  A tensor of zeros, a start-up environment whose random draw is all zeros, a library
  that converts every mode to RGB and whose colour conversions and resampling are the
  simplest possible, the solid mid-gray 64 x 64 image of the end-to-end scenario, a body
  that is not an image, and a body whose pixel data stops early.
\<close>

definition zeros :: "nat list \<Rightarrow> tensor" where
  "zeros shp = \<lparr>shape = shp, val = (\<lambda>idx. 0)\<rparr>"

definition sample_env :: "checkpoint_file \<Rightarrow> environment" where
  "sample_env f = \<lparr>cuda_is_available = False, initial_weights = (\<lambda>k idx. 0), MODEL_PATH_file = f\<rparr>"

definition sample_lib :: lib where
  "sample_lib =
     \<lparr>rgb_convertible = (\<lambda>md. True),
      convert_rgb = pixel,
      lanczos = (\<lambda>px old new. px),
      rgb2lab = (\<lambda>p. p),
      lab2rgb = (\<lambda>p. p)\<rparr>"

definition gray_64 :: image where
  "gray_64 = \<lparr>img_size = (64, 64), mode = ''RGB'', pixel = (\<lambda>y xx ch. 128)\<rparr>"

definition gray_upload :: upload where
  "gray_upload = \<lparr>content_type = Some ''image/png'', contents = Encoded gray_64\<rparr>"

definition junk_upload :: upload where
  "junk_upload = \<lparr>content_type = Some ''image/png'', contents = Undecodable [0, 1, 2]\<rparr>"

definition truncated_upload :: upload where
  "truncated_upload = \<lparr>content_type = Some ''image/png'', contents = Truncated gray_64\<rparr>"

text \<open>\<open>buffer.fill_(v)\<close> on one entry of the state dict.\<close>

definition fill_buffer :: "pname \<Rightarrow> real \<Rightarrow> unet \<Rightarrow> unet" where
  "fill_buffer k v m = m\<lparr>state_dict := (state_dict m)(k := (\<lambda>idx. v))\<rparr>"

definition sample_model :: unet where
  "sample_model = eval_mode (ColorizationSDAEUNet (initial_weights (sample_env Absent)) 1 2 64)"

section \<open>Two runs side by side\<close>

text \<open>
  Two outcomes agree when they carry the same result (the same tensor, or the same
  exception) and leave model objects of which the second is a possible later state of the
  first.
\<close>

definition agree :: "'a outcome \<Rightarrow> 'a outcome \<Rightarrow> bool" where
  "agree r r' = (fst r' = fst r \<and> evolves (snd r) (snd r'))"

section \<open>Running the layers\<close>

lemma and_then_Inr [simp]: "and_then (Inr y, m) f = f y m"
  by (simp add: and_then_def)

lemma and_then_Inl [simp]: "and_then (Inl e, m) f = (Inl e, m)"
  by (simp add: and_then_def)

lemma evolves_refl [simp]: "evolves m m"
  by (simp add: evolves_def same_weights_def)

lemma evolves_trans: "evolves m m1 \<Longrightarrow> evolves m1 m2 \<Longrightarrow> evolves m m2"
  by (auto simp: evolves_def same_weights_def)

lemma evolves_and_then:
  assumes "evolves m (snd r)" and "\<And>y m1. evolves m1 (snd (f y m1))"
  shows "evolves m (snd (and_then r f))"
proof (cases r)
  case (Pair a m1)
  show ?thesis
  proof (cases a)
    case (Inl e)
    with Pair assms(1) show ?thesis by simp
  next
    case (Inr y)
    with Pair assms(1) assms(2) show ?thesis
      by (auto intro: evolves_trans)
  qed
qed

lemma Conv2d_state [simp]: "snd (Conv2d pre cin cout k p b x m) = m"
  by (simp add: Conv2d_def split: list.splits)

lemma ReLU_state [simp]: "snd (ReLU x m) = m"
  by (simp add: ReLU_def)

lemma MaxPool2d_state [simp]: "snd (MaxPool2d x m) = m"
  by (simp add: MaxPool2d_def split: list.splits)

lemma ConvTranspose2d_state [simp]: "snd (ConvTranspose2d pre cin cout x m) = m"
  by (simp add: ConvTranspose2d_def split: list.splits)

lemma pure_op_state [simp]: "snd (pure_op r m) = m"
  by (simp add: pure_op_def)

lemma is_buffer_simps [simp]:
  "is_buffer (pre @ [''running_mean''])" "is_buffer (pre @ [''running_var''])"
  "is_buffer (pre @ [''num_batches_tracked''])"
  "\<not> is_buffer (pre @ [''weight''])" "\<not> is_buffer (pre @ [''bias''])"
  by (simp_all add: is_buffer_def)

lemma BatchNorm2d_evolves: "evolves m (snd (BatchNorm2d pre c x m))"
  by (auto simp: BatchNorm2d_def evolves_def same_weights_def split: list.splits)

lemma Sequential_evolves:
  assumes "\<And>l x m. l \<in> set ls \<Longrightarrow> evolves m (snd (l x m))"
  shows "evolves m (snd (Sequential ls x m))"
  using assms
proof (induction ls arbitrary: x m)
  case Nil
  show ?case by simp
next
  case (Cons l ls)
  show ?case
    unfolding Sequential.simps
    by (rule evolves_and_then) (simp_all add: Cons)
qed

lemma ConvBlock_evolves: "evolves m (snd (ConvBlock pre cin cout x m))"
  unfolding ConvBlock_def
  by (rule Sequential_evolves) (auto simp: BatchNorm2d_evolves)

lemma UpBlock_evolves: "evolves m (snd (UpBlock_forward pre cin cout x skip m))"
  unfolding UpBlock_forward_def
  by (intro evolves_and_then) (simp_all add: ConvBlock_evolves)

lemma forward_evolves: "evolves m (snd (forward x m))"
  unfolding forward_def
  by (intro evolves_and_then) (simp_all add: ConvBlock_evolves UpBlock_evolves)

lemma Conv2d_run:
  assumes "shape x = [n, cin, h, w]" "k \<le> h + 2 * p" "k \<le> w + 2 * p"
  obtains y where "Conv2d pre cin cout k p b x m = (Inr y, m)"
    and "shape y = [n, cout, h + 2 * p - k + 1, w + 2 * p - k + 1]"
  using assms by (simp add: Conv2d_def)

lemma BatchNorm2d_fst:
  assumes "shape x = [n, c, h, w]" "training m \<longrightarrow> n * h * w \<noteq> 1"
  shows "\<exists>y. fst (BatchNorm2d pre c x m) = Inr y \<and> shape y = [n, c, h, w]"
proof (cases "training m")
  case True
  with assms show ?thesis by (simp add: BatchNorm2d_def)
next
  case False
  with assms show ?thesis by (simp add: BatchNorm2d_def)
qed

lemma not_child: "butlast k \<noteq> pre \<Longrightarrow> k \<noteq> pre @ [a]"
  by auto

lemma BatchNorm2d_frame:
  assumes "butlast k \<noteq> pre"
  shows "state_dict (snd (BatchNorm2d pre c x m)) k = state_dict m k"
proof -
  have ne: "k \<noteq> pre @ [''running_mean'']" "k \<noteq> pre @ [''running_var'']"
    "k \<noteq> pre @ [''num_batches_tracked'']"
    using not_child [OF assms] by blast+
  show ?thesis
    by (simp add: BatchNorm2d_def ne split: list.splits)
qed

lemma BatchNorm2d_counts:
  assumes "shape x = [n, c, h, w]" "training m" "n * h * w \<noteq> 1"
  shows "state_dict (snd (BatchNorm2d pre c x m)) (pre @ [''num_batches_tracked'']) idx
           = state_dict m (pre @ [''num_batches_tracked'']) idx + 1"
  using assms by (simp add: BatchNorm2d_def)

lemma BatchNorm2d_run:
  assumes "shape x = [n, c, h, w]" "training m \<longrightarrow> n * h * w \<noteq> 1"
  obtains y m' where "BatchNorm2d pre c x m = (Inr y, m')" and "shape y = [n, c, h, w]"
    and "evolves m m'"
    and "\<forall>k. butlast k \<noteq> pre \<longrightarrow> state_dict m' k = state_dict m k"
    and "training m \<longrightarrow> state_dict m' (pre @ [''num_batches_tracked'']) []
           = state_dict m (pre @ [''num_batches_tracked'']) [] + 1"
proof -
  from BatchNorm2d_fst [OF assms]
  obtain y where "fst (BatchNorm2d pre c x m) = Inr y" "shape y = [n, c, h, w]"
    by blast
  moreover have "evolves m (snd (BatchNorm2d pre c x m))"
    by (rule BatchNorm2d_evolves)
  moreover have "\<forall>k. butlast k \<noteq> pre \<longrightarrow> state_dict (snd (BatchNorm2d pre c x m)) k = state_dict m k"
    by (simp add: BatchNorm2d_frame)
  moreover have "training m \<longrightarrow> state_dict (snd (BatchNorm2d pre c x m)) (pre @ [''num_batches_tracked'']) []
           = state_dict m (pre @ [''num_batches_tracked'']) [] + 1"
    using BatchNorm2d_counts [OF assms(1)] assms(2) by blast
  ultimately show ?thesis
    using that [of y "snd (BatchNorm2d pre c x m)"] by (simp add: prod_eq_iff)
qed

lemma ReLU_run:
  obtains y where "ReLU x m = (Inr y, m)" and "shape y = shape x"
  by (simp add: ReLU_def)

lemma Conv3_run:
  assumes "shape x = [n, cin, h, w]" "1 \<le> h" "1 \<le> w"
  obtains y where "Conv2d pre cin cout 3 1 b x m = (Inr y, m)" and "shape y = [n, cout, h, w]"
proof -
  from assms have "\<not> (h + 2 * 1 < 3 \<or> w + 2 * 1 < 3)" by arith
  with assms(1) show ?thesis
    using that by (simp add: Conv2d_def)
qed

lemma Conv1_run:
  assumes "shape x = [n, cin, h, w]" "1 \<le> h" "1 \<le> w"
  obtains y where "Conv2d pre cin cout 1 0 b x m = (Inr y, m)" and "shape y = [n, cout, h, w]"
proof -
  from assms have "\<not> (h + 2 * 0 < 1 \<or> w + 2 * 0 < 1)" by arith
  with assms(1) show ?thesis
    using that by (simp add: Conv2d_def)
qed

lemma ConvBlock_run:
  assumes x: "shape x = [n, cin, h, w]" and h: "1 \<le> h" and w: "1 \<le> w"
    and tr: "training m \<longrightarrow> n * h * w \<noteq> 1"
  obtains y m' where "ConvBlock pre cin cout x m = (Inr y, m')" and "shape y = [n, cout, h, w]"
    and "evolves m m'"
    and "\<forall>k. butlast k \<noteq> pre @ [''block'', ''1''] \<and> butlast k \<noteq> pre @ [''block'', ''4'']
           \<longrightarrow> state_dict m' k = state_dict m k"
    and "training m \<longrightarrow> state_dict m' (pre @ [''block'', ''4'', ''num_batches_tracked'']) []
           = state_dict m (pre @ [''block'', ''4'', ''num_batches_tracked'']) [] + 1"
proof -
  obtain a where a: "Conv2d (pre @ [''block'', ''0'']) cin cout 3 1 False x m = (Inr a, m)"
      "shape a = [n, cout, h, w]"
    using Conv3_run [OF x h w] by blast
  obtain b m1 where b: "BatchNorm2d (pre @ [''block'', ''1'']) cout a m = (Inr b, m1)"
      "shape b = [n, cout, h, w]" and m1: "evolves m m1"
      and f1: "\<forall>k. butlast k \<noteq> pre @ [''block'', ''1''] \<longrightarrow> state_dict m1 k = state_dict m k"
    using BatchNorm2d_run [OF a(2) tr] by blast
  obtain c where c: "ReLU b m1 = (Inr c, m1)" "shape c = [n, cout, h, w]"
    by (simp add: ReLU_def b(2))
  obtain d where d: "Conv2d (pre @ [''block'', ''3'']) cout cout 3 1 False c m1 = (Inr d, m1)"
      "shape d = [n, cout, h, w]"
    using Conv3_run [OF c(2) h w] by blast
  have trm: "training m1 = training m"
    using m1 by (simp add: evolves_def same_weights_def)
  have tr1: "training m1 \<longrightarrow> n * h * w \<noteq> 1"
    using tr trm by simp
  obtain e m2 where e: "BatchNorm2d (pre @ [''block'', ''4'']) cout d m1 = (Inr e, m2)"
      "shape e = [n, cout, h, w]" and m2: "evolves m1 m2"
      and f2: "\<forall>k. butlast k \<noteq> pre @ [''block'', ''4''] \<longrightarrow> state_dict m2 k = state_dict m1 k"
      and c2: "training m1 \<longrightarrow> state_dict m2 ((pre @ [''block'', ''4'']) @ [''num_batches_tracked'']) []
           = state_dict m1 ((pre @ [''block'', ''4'']) @ [''num_batches_tracked'']) [] + 1"
    using BatchNorm2d_run [OF d(2) tr1] by blast
  obtain f where f: "ReLU e m2 = (Inr f, m2)" "shape f = [n, cout, h, w]"
    by (simp add: ReLU_def e(2))
  have run: "ConvBlock pre cin cout x m = (Inr f, m2)"
    unfolding ConvBlock_def Sequential.simps a b c d e f and_then_Inr ..
  have frame: "\<forall>k. butlast k \<noteq> pre @ [''block'', ''1''] \<and> butlast k \<noteq> pre @ [''block'', ''4'']
           \<longrightarrow> state_dict m2 k = state_dict m k"
    using f1 f2 by simp
  have "butlast (pre @ [''block'', ''4'', ''num_batches_tracked'']) \<noteq> pre @ [''block'', ''1'']"
    by (simp add: butlast_append)
  with f1 have "state_dict m1 (pre @ [''block'', ''4'', ''num_batches_tracked''])
          = state_dict m (pre @ [''block'', ''4'', ''num_batches_tracked''])"
    by blast
  then have count: "training m \<longrightarrow> state_dict m2 (pre @ [''block'', ''4'', ''num_batches_tracked'']) []
           = state_dict m (pre @ [''block'', ''4'', ''num_batches_tracked'']) [] + 1"
    using c2 trm by simp
  show ?thesis
    using that [OF run f(2) evolves_trans [OF m1 m2] frame count] .
qed

lemma pad_run:
  assumes "shape x = [n, c, h, w]" "0 \<le> int h + t + b" "0 \<le> int w + l + r"
  obtains y where "pad x l r t b = Inr y"
    and "shape y = [n, c, nat (int h + t + b), nat (int w + l + r)]"
  using assms by (simp add: pad_def)

lemma floor_halves: "(d::int) div 2 + (d - d div 2) = d"
  by simp

lemma match_skip_run:
  assumes x: "shape x = [n, c, h, w]" and s: "shape skip = [n', c', h', w']"
  obtains y where "match_skip x skip = Inr y" and "shape y = [n, c, h', w']"
proof (cases "(h, w) = (h', w')")
  case True
  with x s that [of x] show ?thesis
    by (simp add: match_skip_def)
next
  case False
  define dy where "dy = int h' - int h"
  define dx where "dx = int w' - int w"
  have hh: "int h + dy div 2 + (dy - dy div 2) = int h'"
    by (simp add: dy_def)
  have ww: "int w + dx div 2 + (dx - dx div 2) = int w'"
    by (simp add: dx_def)
  obtain y where y: "pad x (dx div 2) (dx - dx div 2) (dy div 2) (dy - dy div 2) = Inr y"
    "shape y = [n, c, nat (int h + dy div 2 + (dy - dy div 2)), nat (int w + dx div 2 + (dx - dx div 2))]"
    using pad_run [OF x, of "dy div 2" "dy - dy div 2" "dx div 2" "dx - dx div 2"] hh ww
    by auto
  have "match_skip x skip = Inr y"
    using False x s y(1) by (simp add: match_skip_def Let_def dy_def dx_def)
  moreover have "shape y = [n, c, h', w']"
    using y(2) hh ww by simp
  ultimately show ?thesis
    using that by blast
qed

lemma cat_channels_run:
  assumes "shape a = [n, c, h, w]" "shape b = [n, c', h, w]"
  obtains y where "cat_channels a b = Inr y" and "shape y = [n, c + c', h, w]"
  using assms by (simp add: cat_channels_def)

lemma ConvTranspose2d_run:
  assumes "shape x = [n, cin, h, w]"
  obtains y where "ConvTranspose2d pre cin cout x m = (Inr y, m)"
    and "shape y = [n, cout, 2 * h, 2 * w]"
  using assms by (simp add: ConvTranspose2d_def)

lemma MaxPool2d_run:
  assumes "shape x = [n, c, h, w]" "2 \<le> h" "2 \<le> w"
  obtains y where "MaxPool2d x m = (Inr y, m)" and "shape y = [n, c, h div 2, w div 2]"
proof -
  from assms have "\<not> (h div 2 = 0 \<or> w div 2 = 0)" by simp
  with assms(1) show ?thesis using that by (simp add: MaxPool2d_def)
qed

lemma UpBlock_run:
  assumes x: "shape x = [n, cin, h, w]" and s: "shape skip = [n, cout, h', w']"
    and h: "1 \<le> h'" and w: "1 \<le> w'" and tr: "training m \<longrightarrow> n * h' * w' \<noteq> 1"
  obtains y m' where "UpBlock_forward pre cin cout x skip m = (Inr y, m')"
    and "shape y = [n, cout, h', w']" and "evolves m m'"
    and "\<forall>k. butlast k \<noteq> pre @ [''conv'', ''block'', ''1''] \<and> butlast k \<noteq> pre @ [''conv'', ''block'', ''4'']
           \<longrightarrow> state_dict m' k = state_dict m k"
    and "training m \<longrightarrow> state_dict m' (pre @ [''conv'', ''block'', ''4'', ''num_batches_tracked'']) []
           = state_dict m (pre @ [''conv'', ''block'', ''4'', ''num_batches_tracked'']) [] + 1"
proof -
  obtain u where u: "ConvTranspose2d (pre @ [''up'']) cin cout x m = (Inr u, m)"
      "shape u = [n, cout, 2 * h, 2 * w]"
    using ConvTranspose2d_run [OF x] by blast
  obtain v where v: "match_skip u skip = Inr v" "shape v = [n, cout, h', w']"
    using match_skip_run [OF u(2) s] by blast
  obtain c where c: "cat_channels skip v = Inr c" "shape c = [n, cout + cout, h', w']"
    using cat_channels_run [OF s v(2)] by blast
  have c': "shape c = [n, cout * 2, h', w']"
    using c(2) by simp
  obtain y m' where y: "ConvBlock (pre @ [''conv'']) (cout * 2) cout c m = (Inr y, m')"
      "shape y = [n, cout, h', w']" "evolves m m'"
      and fr: "\<forall>k. butlast k \<noteq> (pre @ [''conv'']) @ [''block'', ''1'']
                 \<and> butlast k \<noteq> (pre @ [''conv'']) @ [''block'', ''4'']
           \<longrightarrow> state_dict m' k = state_dict m k"
      and ct: "training m \<longrightarrow> state_dict m' ((pre @ [''conv'']) @ [''block'', ''4'', ''num_batches_tracked'']) []
           = state_dict m ((pre @ [''conv'']) @ [''block'', ''4'', ''num_batches_tracked'']) [] + 1"
    using ConvBlock_run [OF c' h w tr] by blast
  have run: "UpBlock_forward pre cin cout x skip m = (Inr y, m')"
    unfolding UpBlock_forward_def u and_then_Inr pure_op_def v c y ..
  show ?thesis
    using that [OF run y(2,3)] fr ct by simp
qed

lemma more_than_one_value:
  fixes n a b a' b' :: nat
  assumes "n * a * b \<noteq> 1" "a \<le> a'" "b \<le> b'" "1 \<le> a" "1 \<le> b"
  shows "n * a' * b' \<noteq> 1"
proof
  assume "n * a' * b' = 1"
  then have "n = 1" "a' = 1" "b' = 1" by simp_all
  with assms(2-5) have "a = 1" "b = 1" by simp_all
  with \<open>n = 1\<close> assms(1) show False by simp
qed

lemma evolves_base:
  "evolves m m' \<Longrightarrow> base_ch m' = base_ch m"
  "evolves m m' \<Longrightarrow> in_ch m' = in_ch m"
  "evolves m m' \<Longrightarrow> out_ch m' = out_ch m"
  "evolves m m' \<Longrightarrow> training m' = training m"
  by (simp_all add: evolves_def same_weights_def)

lemma forward_run:
  assumes x: "shape x = [n, in_ch m, h, w]" and h: "16 \<le> h" and w: "16 \<le> w"
    and tr: "training m \<longrightarrow> n * (h div 16) * (w div 16) \<noteq> 1"
  obtains y m' d1 where "forward x m = (Inr y, m')" and "shape y = [n, out_ch m, h, w]"
    and "evolves m m'"
    and "shape d1 = [n, base_ch m, h, w]"
    and "Conv2d [''out_conv''] (base_ch m) (out_ch m) 1 0 True d1 m' = (Inr y, m')"
    and "training m \<longrightarrow>
           state_dict m' [''up1'', ''conv'', ''block'', ''4'', ''num_batches_tracked''] []
           = state_dict m [''up1'', ''conv'', ''block'', ''4'', ''num_batches_tracked''] [] + 1"
proof -
  let ?K = "[''up1'', ''conv'', ''block'', ''4'', ''num_batches_tracked'']"
  define B where "B = base_ch m"
  define h2 where "h2 = h div 2"
  define h4 where "h4 = h2 div 2"
  define h8 where "h8 = h4 div 2"
  define h16 where "h16 = h8 div 2"
  define w2 where "w2 = w div 2"
  define w4 where "w4 = w2 div 2"
  define w8 where "w8 = w4 div 2"
  define w16 where "w16 = w8 div 2"
  have hs: "8 \<le> h2" "4 \<le> h4" "2 \<le> h8" "1 \<le> h16" "h16 \<le> h8" "h8 \<le> h4" "h4 \<le> h2" "h2 \<le> h"
    and h16: "h16 = h div 16"
    using h unfolding h2_def h4_def h8_def h16_def by simp_all
  have ws: "8 \<le> w2" "4 \<le> w4" "2 \<le> w8" "1 \<le> w16" "w16 \<le> w8" "w8 \<le> w4" "w4 \<le> w2" "w2 \<le> w"
    and w16: "w16 = w div 16"
    using w unfolding w2_def w4_def w8_def w16_def by simp_all
  have pos: "1 \<le> h" "1 \<le> w" "1 \<le> h2" "1 \<le> w2" "1 \<le> h4" "1 \<le> w4" "1 \<le> h8" "1 \<le> w8"
    "2 \<le> h" "2 \<le> w" "2 \<le> h2" "2 \<le> w2" "2 \<le> h4" "2 \<le> w4"
    using h w hs ws by simp_all
  have t16: "training m \<longrightarrow> n * h16 * w16 \<noteq> 1"
    using tr h16 w16 by simp
  have t8: "training m \<longrightarrow> n * h8 * w8 \<noteq> 1"
    using t16 more_than_one_value [of n h16 w16 h8 w8] hs(4,5) ws(4,5) by blast
  have t4: "training m \<longrightarrow> n * h4 * w4 \<noteq> 1"
    using t8 more_than_one_value [of n h8 w8 h4 w4] hs(6) ws(6) pos(7,8) by blast
  have t2: "training m \<longrightarrow> n * h2 * w2 \<noteq> 1"
    using t4 more_than_one_value [of n h4 w4 h2 w2] hs(7) ws(7) pos(5,6) by blast
  have t1: "training m \<longrightarrow> n * h * w \<noteq> 1"
    using t2 more_than_one_value [of n h2 w2 h w] hs(8) ws(8) pos(3,4) by blast
  obtain e1 m1 where e1: "ConvBlock [''enc1''] (in_ch m) B x m = (Inr e1, m1)"
      and se1: "shape e1 = [n, B, h, w]" and v1: "evolves m m1"
      and fr_m1: "\<forall>k. butlast k \<noteq> [''enc1''] @ [''block'', ''1''] \<and> butlast k \<noteq> [''enc1''] @ [''block'', ''4'']
           \<longrightarrow> state_dict m1 k = state_dict m k"
    using ConvBlock_run [OF x pos(1,2) t1] by blast
  have "butlast ?K \<noteq> [''enc1''] @ [''block'', ''1''] \<and> butlast ?K \<noteq> [''enc1''] @ [''block'', ''4'']"
    by simp
  with fr_m1 have k_m1: "state_dict m1 ?K = state_dict m ?K"
    by blast
  obtain p1 where p1: "MaxPool2d e1 m1 = (Inr p1, m1)" and sp1: "shape p1 = [n, B, h2, w2]"
    using MaxPool2d_run [OF se1 pos(9,10)] unfolding h2_def w2_def by blast
  have t2': "training m1 \<longrightarrow> n * h2 * w2 \<noteq> 1" using t2 evolves_base(4) [OF v1] by simp
  obtain e2 m2 where e2: "ConvBlock [''enc2''] B (B * 2) p1 m1 = (Inr e2, m2)"
      and se2: "shape e2 = [n, B * 2, h2, w2]" and v2: "evolves m1 m2"
      and fr_m2: "\<forall>k. butlast k \<noteq> [''enc2''] @ [''block'', ''1''] \<and> butlast k \<noteq> [''enc2''] @ [''block'', ''4'']
           \<longrightarrow> state_dict m2 k = state_dict m1 k"
    using ConvBlock_run [OF sp1 pos(3,4) t2'] by blast
  have "butlast ?K \<noteq> [''enc2''] @ [''block'', ''1''] \<and> butlast ?K \<noteq> [''enc2''] @ [''block'', ''4'']"
    by simp
  with fr_m2 have k_m2: "state_dict m2 ?K = state_dict m1 ?K"
    by blast
  obtain p2 where p2: "MaxPool2d e2 m2 = (Inr p2, m2)" and sp2: "shape p2 = [n, B * 2, h4, w4]"
    using MaxPool2d_run [OF se2 pos(11,12)] unfolding h4_def w4_def by blast
  have u2: "evolves m m2" using v1 v2 by (rule evolves_trans)
  have t4': "training m2 \<longrightarrow> n * h4 * w4 \<noteq> 1" using t4 evolves_base(4) [OF u2] by simp
  obtain e3 m3 where e3: "ConvBlock [''enc3''] (B * 2) (B * 4) p2 m2 = (Inr e3, m3)"
      and se3: "shape e3 = [n, B * 4, h4, w4]" and v3: "evolves m2 m3"
      and fr_m3: "\<forall>k. butlast k \<noteq> [''enc3''] @ [''block'', ''1''] \<and> butlast k \<noteq> [''enc3''] @ [''block'', ''4'']
           \<longrightarrow> state_dict m3 k = state_dict m2 k"
    using ConvBlock_run [OF sp2 pos(5,6) t4'] by blast
  have "butlast ?K \<noteq> [''enc3''] @ [''block'', ''1''] \<and> butlast ?K \<noteq> [''enc3''] @ [''block'', ''4'']"
    by simp
  with fr_m3 have k_m3: "state_dict m3 ?K = state_dict m2 ?K"
    by blast
  obtain p3 where p3: "MaxPool2d e3 m3 = (Inr p3, m3)" and sp3: "shape p3 = [n, B * 4, h8, w8]"
    using MaxPool2d_run [OF se3 pos(13,14)] unfolding h8_def w8_def by blast
  have u3: "evolves m m3" using u2 v3 by (rule evolves_trans)
  have t8': "training m3 \<longrightarrow> n * h8 * w8 \<noteq> 1" using t8 evolves_base(4) [OF u3] by simp
  obtain e4 m4 where e4: "ConvBlock [''enc4''] (B * 4) (B * 8) p3 m3 = (Inr e4, m4)"
      and se4: "shape e4 = [n, B * 8, h8, w8]" and v4: "evolves m3 m4"
      and fr_m4: "\<forall>k. butlast k \<noteq> [''enc4''] @ [''block'', ''1''] \<and> butlast k \<noteq> [''enc4''] @ [''block'', ''4'']
           \<longrightarrow> state_dict m4 k = state_dict m3 k"
    using ConvBlock_run [OF sp3 pos(7,8) t8'] by blast
  have "butlast ?K \<noteq> [''enc4''] @ [''block'', ''1''] \<and> butlast ?K \<noteq> [''enc4''] @ [''block'', ''4'']"
    by simp
  with fr_m4 have k_m4: "state_dict m4 ?K = state_dict m3 ?K"
    by blast
  obtain p4 where p4: "MaxPool2d e4 m4 = (Inr p4, m4)" and sp4: "shape p4 = [n, B * 8, h16, w16]"
    using MaxPool2d_run [OF se4 hs(3) ws(3)] unfolding h16_def w16_def by blast
  have u4: "evolves m m4" using u3 v4 by (rule evolves_trans)
  have t16': "training m4 \<longrightarrow> n * h16 * w16 \<noteq> 1" using t16 evolves_base(4) [OF u4] by simp
  obtain b m5 where b: "ConvBlock [''bottleneck''] (B * 8) (B * 16) p4 m4 = (Inr b, m5)"
      and sb: "shape b = [n, B * 16, h16, w16]" and v5: "evolves m4 m5"
      and fr_m5: "\<forall>k. butlast k \<noteq> [''bottleneck''] @ [''block'', ''1''] \<and> butlast k \<noteq> [''bottleneck''] @ [''block'', ''4'']
           \<longrightarrow> state_dict m5 k = state_dict m4 k"
    using ConvBlock_run [OF sp4 hs(4) ws(4) t16'] by blast
  have "butlast ?K \<noteq> [''bottleneck''] @ [''block'', ''1''] \<and> butlast ?K \<noteq> [''bottleneck''] @ [''block'', ''4'']"
    by simp
  with fr_m5 have k_m5: "state_dict m5 ?K = state_dict m4 ?K"
    by blast
  have u5: "evolves m m5" using u4 v5 by (rule evolves_trans)
  have t8'': "training m5 \<longrightarrow> n * h8 * w8 \<noteq> 1" using t8 evolves_base(4) [OF u5] by simp
  obtain d4 m6 where d4: "UpBlock_forward [''up4''] (B * 16) (B * 8) b e4 m5 = (Inr d4, m6)"
      and sd4: "shape d4 = [n, B * 8, h8, w8]" and v6: "evolves m5 m6"
      and fr_m6: "\<forall>k. butlast k \<noteq> [''up4''] @ [''conv'', ''block'', ''1''] \<and> butlast k \<noteq> [''up4''] @ [''conv'', ''block'', ''4'']
           \<longrightarrow> state_dict m6 k = state_dict m5 k"
    using UpBlock_run [OF sb se4 pos(7,8) t8''] by blast
  have "butlast ?K \<noteq> [''up4''] @ [''conv'', ''block'', ''1''] \<and> butlast ?K \<noteq> [''up4''] @ [''conv'', ''block'', ''4'']"
    by simp
  with fr_m6 have k_m6: "state_dict m6 ?K = state_dict m5 ?K"
    by blast
  have u6: "evolves m m6" using u5 v6 by (rule evolves_trans)
  have t4'': "training m6 \<longrightarrow> n * h4 * w4 \<noteq> 1" using t4 evolves_base(4) [OF u6] by simp
  obtain d3 m7 where d3: "UpBlock_forward [''up3''] (B * 8) (B * 4) d4 e3 m6 = (Inr d3, m7)"
      and sd3: "shape d3 = [n, B * 4, h4, w4]" and v7: "evolves m6 m7"
      and fr_m7: "\<forall>k. butlast k \<noteq> [''up3''] @ [''conv'', ''block'', ''1''] \<and> butlast k \<noteq> [''up3''] @ [''conv'', ''block'', ''4'']
           \<longrightarrow> state_dict m7 k = state_dict m6 k"
    using UpBlock_run [OF sd4 se3 pos(5,6) t4''] by blast
  have "butlast ?K \<noteq> [''up3''] @ [''conv'', ''block'', ''1''] \<and> butlast ?K \<noteq> [''up3''] @ [''conv'', ''block'', ''4'']"
    by simp
  with fr_m7 have k_m7: "state_dict m7 ?K = state_dict m6 ?K"
    by blast
  have u7: "evolves m m7" using u6 v7 by (rule evolves_trans)
  have t2'': "training m7 \<longrightarrow> n * h2 * w2 \<noteq> 1" using t2 evolves_base(4) [OF u7] by simp
  obtain d2 m8 where d2: "UpBlock_forward [''up2''] (B * 4) (B * 2) d3 e2 m7 = (Inr d2, m8)"
      and sd2: "shape d2 = [n, B * 2, h2, w2]" and v8: "evolves m7 m8"
      and fr_m8: "\<forall>k. butlast k \<noteq> [''up2''] @ [''conv'', ''block'', ''1''] \<and> butlast k \<noteq> [''up2''] @ [''conv'', ''block'', ''4'']
           \<longrightarrow> state_dict m8 k = state_dict m7 k"
    using UpBlock_run [OF sd3 se2 pos(3,4) t2''] by blast
  have "butlast ?K \<noteq> [''up2''] @ [''conv'', ''block'', ''1''] \<and> butlast ?K \<noteq> [''up2''] @ [''conv'', ''block'', ''4'']"
    by simp
  with fr_m8 have k_m8: "state_dict m8 ?K = state_dict m7 ?K"
    by blast
  have u8: "evolves m m8" using u7 v8 by (rule evolves_trans)
  have t1'': "training m8 \<longrightarrow> n * h * w \<noteq> 1" using t1 evolves_base(4) [OF u8] by simp
  obtain d1 m9 where d1: "UpBlock_forward [''up1''] (B * 2) B d2 e1 m8 = (Inr d1, m9)"
      and sd1: "shape d1 = [n, B, h, w]" and v9: "evolves m8 m9"
      and cnt: "training m8 \<longrightarrow>
           state_dict m9 ([''up1''] @ [''conv'', ''block'', ''4'', ''num_batches_tracked'']) []
           = state_dict m8 ([''up1''] @ [''conv'', ''block'', ''4'', ''num_batches_tracked'']) [] + 1"
    using UpBlock_run [OF sd2 se1 pos(1,2) t1''] by blast
  have k_all: "state_dict m8 ?K = state_dict m ?K"
    using k_m1 k_m2 k_m3 k_m4 k_m5 k_m6 k_m7 k_m8 by simp
  have count: "training m \<longrightarrow> state_dict m9 ?K [] = state_dict m ?K [] + 1"
    using cnt k_all evolves_base(4) [OF u8] by simp
  obtain y where y: "Conv2d [''out_conv''] B (out_ch m) 1 0 True d1 m9 = (Inr y, m9)"
      and sy: "shape y = [n, out_ch m, h, w]"
    using Conv1_run [OF sd1 pos(1,2)] by blast
  have u9: "evolves m m9" using u8 v9 by (rule evolves_trans)
  have bs: "base_ch m1 = B" "base_ch m2 = B" "base_ch m3 = B" "base_ch m4 = B" "base_ch m5 = B"
    "base_ch m6 = B" "base_ch m7 = B" "base_ch m8 = B" "base_ch m9 = B" "out_ch m9 = out_ch m"
    using evolves_base(1) [OF v1] evolves_base(1) [OF u2] evolves_base(1) [OF u3]
      evolves_base(1) [OF u4] evolves_base(1) [OF u5] evolves_base(1) [OF u6]
      evolves_base(1) [OF u7] evolves_base(1) [OF u8] evolves_base(1) [OF u9]
      evolves_base(3) [OF u9]
    by (simp_all add: B_def)
  have run: "forward x m = (Inr y, m9)"
    unfolding forward_def B_def [symmetric] e1 and_then_Inr p1 bs e2 p2 e3 p3 e4 p4 b d4 d3 d2 d1 y ..
  show ?thesis
    using that [OF run sy u9 sd1 [unfolded B_def] y [unfolded B_def] count] .
qed

section \<open>Start-up and the request handler\<close>

lemma startup_Absent:
  assumes "MODEL_PATH_file env = Absent"
  shows "startup env =
     Inr \<lparr>DEVICE = (if cuda_is_available env then ''cuda'' else ''cpu''),
          model = ColorizationSDAEUNet (initial_weights env) 1 2 64,
          temp = PosixPath, checkpoint = None, pathlib_PosixPath = WindowsPath,
          stdout = [Line (''WARNING: Model file not found at '' @ MODEL_PATH
                          @ ''. Inference will use random weights.'')]\<rparr>"
  using assms by (simp add: startup_def try_load_def)

lemma startup_Unreadable:
  assumes "MODEL_PATH_file env = Unreadable msg"
  shows "startup env =
     Inr \<lparr>DEVICE = (if cuda_is_available env then ''cuda'' else ''cpu''),
          model = ColorizationSDAEUNet (initial_weights env) 1 2 64,
          temp = PosixPath, checkpoint = None, pathlib_PosixPath = WindowsPath,
          stdout = [Line_with ''ERROR loading model: '' (OtherError msg)]\<rparr>"
  using assms by (simp add: startup_def try_load_def)

lemma sample_env_simps [simp]:
  "MODEL_PATH_file (sample_env f) = f" "cuda_is_available (sample_env f) = False"
  "initial_weights (sample_env f) = (\<lambda>k idx. 0)"
  by (simp_all add: sample_env_def)

lemma status_flags_empty: "status_flags s = []"
  by (cases "checkpoint s") (simp_all add: status_flags_def module_globals_def)

lemma contains_PDict: "contains (PDict kvs) key = Inr (map_of kvs key \<noteq> None)"
  by (simp add: contains_def map_of_eq_None_iff)

lemma colorize_undecodable:
  assumes "take 6 ct = ''image/''"
  shows "colorize lb \<lparr>content_type = Some ct, contents = Undecodable bs\<rparr> s
           = (HTTPException 500 (Str_of UnidentifiedImageError), s)"
  using assms by (simp add: colorize_def colorize_body_def preprocess_image_def)

lemma constructor_fields [simp]:
  "in_ch (ColorizationSDAEUNet init i b c) = i"
  "out_ch (ColorizationSDAEUNet init i b c) = b"
  "base_ch (ColorizationSDAEUNet init i b c) = c"
  "training (ColorizationSDAEUNet init i b c)"
  by (simp_all add: ColorizationSDAEUNet_def)

lemma load_state_dict_arch:
  "in_ch (snd (load_state_dict sd m)) = in_ch m \<and> out_ch (snd (load_state_dict sd m)) = out_ch m
   \<and> base_ch (snd (load_state_dict sd m)) = base_ch m
   \<and> training (snd (load_state_dict sd m)) = training m"
  by (cases sd) (simp_all add: load_state_dict_def Let_def)

lemma load_checkpoint_arch:
  "in_ch (snd (load_checkpoint obj m)) = in_ch m \<and> out_ch (snd (load_checkpoint obj m)) = out_ch m
   \<and> base_ch (snd (load_checkpoint obj m)) = base_ch m
   \<and> training (snd (load_checkpoint obj m)) = training m"
  by (simp add: load_checkpoint_def load_state_dict_arch split: sum.splits bool.splits)

lemma startup_Pickled:
  assumes "MODEL_PATH_file env = Pickled obj"
  shows "\<exists>s. startup env = Inr s \<and> pathlib_PosixPath s = PosixPath
           \<and> in_ch (model s) = 1 \<and> out_ch (model s) = 2 \<and> base_ch (model s) = 64
           \<and> (training (model s)
                \<longleftrightarrow> isl (fst (load_checkpoint obj (ColorizationSDAEUNet (initial_weights env) 1 2 64))))"
proof -
  let ?m0 = "ColorizationSDAEUNet (initial_weights env) 1 2 64"
  obtain r m where r: "load_checkpoint obj ?m0 = (r, m)"
    by (cases "load_checkpoint obj ?m0")
  have m: "in_ch m = 1" "out_ch m = 2" "base_ch m = 64" "training m"
    using load_checkpoint_arch [of obj ?m0] r by simp_all
  show ?thesis
  proof (cases r)
    case (Inl e)
    with assms r m show ?thesis
      by (cases e) (simp_all add: startup_def try_load_def)
  next
    case (Inr u)
    with assms r m show ?thesis
      by (simp add: startup_def try_load_def eval_mode_def)
  qed
qed

lemma startup_returns: "\<exists>s. startup env = Inr s"
proof (cases "MODEL_PATH_file env")
  case Absent
  then show ?thesis by (simp add: startup_Absent)
next
  case (Unreadable msg)
  then show ?thesis by (simp add: startup_Unreadable)
next
  case (Pickled obj)
  then show ?thesis using startup_Pickled by blast
qed

lemma startup_arch:
  assumes "startup env = Inr s"
  shows "in_ch (model s) = 1 \<and> out_ch (model s) = 2 \<and> base_ch (model s) = 64"
proof (cases "MODEL_PATH_file env")
  case Absent
  with assms show ?thesis by (auto simp: startup_Absent)
next
  case (Unreadable msg)
  with assms show ?thesis by (auto simp: startup_Unreadable)
next
  case (Pickled obj)
  with assms show ?thesis using startup_Pickled [of env obj] by auto
qed

lemma colorize_body_evolves: "evolves m (snd (colorize_body lb c m))"
proof (cases "preprocess_image lb c")
  case (Inl e)
  then show ?thesis by (simp add: colorize_body_def)
next
  case (Inr p)
  obtain L sz where p: "p = (L, sz)" by (cases p)
  show ?thesis
    unfolding colorize_body_def Inr p
    by (simp, rule evolves_and_then) (simp_all add: forward_evolves)
qed

lemma colorize_model_evolves: "evolves (model s) (model (snd (colorize lb file s)))"
proof (cases "content_type file")
  case None
  then show ?thesis by (simp add: colorize_def)
next
  case (Some ct)
  obtain r m where r: "colorize_body lb (contents file) (model s) = (r, m)"
    by (cases "colorize_body lb (contents file) (model s)")
  have "evolves (model s) m"
    using colorize_body_evolves [of "model s" lb "contents file"] r by simp
  with Some r show ?thesis
    by (cases r) (simp_all add: colorize_def)
qed

lemma reachable_arch:
  assumes "reachable lb env s"
  shows "in_ch (model s) = 1 \<and> out_ch (model s) = 2 \<and> base_ch (model s) = 64"
  using assms
proof (induction rule: reachable.induct)
  case (started s)
  then show ?case by (rule startup_arch)
next
  case (served s upl)
  then show ?case
    using evolves_base [OF colorize_model_evolves [of s lb upl]] by simp
qed

lemma preprocess_run:
  assumes "rgb_convertible lb (mode img)" "img_size img = (W, H)" "0 < W" "0 < H"
  obtains L where "preprocess_image lb (Encoded img) = Inr (L, (W, H))"
    and "shape L = [1, 1, 256, 256]"
  using assms by (simp add: preprocess_image_def resize_def IMAGE_SIZE_def Let_def)

lemma lab_denormalize_run:
  assumes "shape L = [n, 1, h, w]" "shape ab = [n, 2, h, w]" "0 < n" "0 < h" "0 < w"
  obtains rgb where "lab_denormalize lb L ab = Inr rgb" and "shape rgb = [n, h, w, 3]"
  using assms by (simp add: lab_denormalize_def)

lemma postprocess_run:
  assumes "shape rgb = [n, h, w, 3]" "0 < n" "0 < h" "0 < w" "0 < W" "0 < H"
  obtains a img out where "first_of_batch rgb = Inr a" and "fromarray (times_255 a) = Inr img"
    and "resize lb img (W, H) = Inr out" and "img_size out = (W, H)"
  using assms by (simp add: first_of_batch_def fromarray_def times_255_def resize_def)

lemma colorize_body_run:
  assumes m: "in_ch m = 1" "out_ch m = 2"
    and img: "rgb_convertible lb (mode img)" "img_size img = (W, H)" "0 < W" "0 < H"
  obtains out m' where "colorize_body lb (Encoded img) m = (Inr (Encoded out), m')"
    and "img_size out = (W, H)" and "evolves m m'"
    and "training m \<longrightarrow>
           state_dict m' [''up1'', ''conv'', ''block'', ''4'', ''num_batches_tracked''] []
           = state_dict m [''up1'', ''conv'', ''block'', ''4'', ''num_batches_tracked''] [] + 1"
proof -
  obtain L where L: "preprocess_image lb (Encoded img) = Inr (L, (W, H))"
      and sL: "shape L = [1, 1, 256, 256]"
    using preprocess_run [OF img] by blast
  have sL': "shape L = [1, in_ch m, 256, 256]"
    using sL m(1) by simp
  have tr: "training m \<longrightarrow> 1 * (256 div 16) * (256 div 16) \<noteq> (1::nat)"
    by simp
  have big: "16 \<le> (256::nat)"
    by simp
  obtain ab m' where f: "forward L m = (Inr ab, m')" and sab: "shape ab = [1, out_ch m, 256, 256]"
      and ev: "evolves m m'"
      and cnt: "training m \<longrightarrow>
           state_dict m' [''up1'', ''conv'', ''block'', ''4'', ''num_batches_tracked''] []
           = state_dict m [''up1'', ''conv'', ''block'', ''4'', ''num_batches_tracked''] [] + 1"
    using forward_run [OF sL' big big tr] by blast
  have sab': "shape ab = [1, 2, 256, 256]"
    using sab m(2) by simp
  obtain rgb where rgb: "lab_denormalize lb L ab = Inr rgb" and srgb: "shape rgb = [1, 256, 256, 3]"
    using lab_denormalize_run [OF sL sab', of lb] by auto
  obtain a im out where post: "first_of_batch rgb = Inr a" "fromarray (times_255 a) = Inr im"
      "resize lb im (W, H) = Inr out" and so: "img_size out = (W, H)"
    using postprocess_run [OF srgb _ _ _ img(3,4), of lb] by auto
  have "colorize_body lb (Encoded img) m = (Inr (Encoded out), m')"
    by (simp add: colorize_body_def L f rgb post)
  then show ?thesis
    using that so ev cnt by blast
qed

lemma colorize_run:
  assumes m: "in_ch (model s) = 1" "out_ch (model s) = 2"
    and up: "content_type upl = Some ct" "take 6 ct = ''image/''" "contents upl = Encoded img"
    and img: "rgb_convertible lb (mode img)" "img_size img = (W, H)" "0 < W" "0 < H"
  obtains out m' where "colorize lb upl s = (Response (Encoded out) ''image/png'', s\<lparr>model := m'\<rparr>)"
    and "img_size out = (W, H)" and "evolves (model s) m'"
    and "training (model s) \<longrightarrow>
           state_dict m' [''up1'', ''conv'', ''block'', ''4'', ''num_batches_tracked''] []
           = state_dict (model s) [''up1'', ''conv'', ''block'', ''4'', ''num_batches_tracked''] [] + 1"
proof -
  obtain out m' where b: "colorize_body lb (Encoded img) (model s) = (Inr (Encoded out), m')"
      and rest: "img_size out = (W, H)" "evolves (model s) m'"
        "training (model s) \<longrightarrow>
           state_dict m' [''up1'', ''conv'', ''block'', ''4'', ''num_batches_tracked''] []
           = state_dict (model s) [''up1'', ''conv'', ''block'', ''4'', ''num_batches_tracked''] [] + 1"
    using colorize_body_run [OF m img] by blast
  have "colorize lb upl s = (Response (Encoded out) ''image/png'', s\<lparr>model := m'\<rparr>)"
    by (simp add: colorize_def up b)
  then show ?thesis
    using that rest by blast
qed

lemma colorize_eval_frame:
  assumes "\<not> training (model s)"
  shows "snd (colorize lb upl s) = s"
proof (cases "content_type upl")
  case None
  then show ?thesis by (simp add: colorize_def)
next
  case (Some ct)
  obtain r m where r: "colorize_body lb (contents upl) (model s) = (r, m)"
    by (cases "colorize_body lb (contents upl) (model s)")
  have "evolves (model s) m"
    using colorize_body_evolves [of "model s" lb "contents upl"] r by simp
  with assms have "m = model s"
    by (simp add: evolves_def)
  with Some r show ?thesis
    by (cases r) (simp_all add: colorize_def)
qed

lemma initial_count:
  "state_dict (ColorizationSDAEUNet init i b c)
     [''up1'', ''conv'', ''block'', ''4'', ''num_batches_tracked''] idx = 0"
  by (simp add: ColorizationSDAEUNet_def UpBlock_init_def ConvBlock_init_def BatchNorm2d_init_def)

lemma gray_upload_simps:
  "content_type gray_upload = Some ''image/png''" "contents gray_upload = Encoded gray_64"
  "img_size gray_64 = (64, 64)" "rgb_convertible sample_lib (mode gray_64)"
  by (simp_all add: gray_upload_def gray_64_def sample_lib_def)

section \<open>A second run on a later state of the model\<close>

lemma agree_and_then:
  assumes "agree r r'" and "\<And>y m a. evolves m a \<Longrightarrow> agree (f y m) (g y a)"
  shows "agree (and_then r f) (and_then r' g)"
proof -
  obtain v m where r: "r = (v, m)" by (cases r)
  obtain v' a where r': "r' = (v', a)" by (cases r')
  from assms(1) have v: "v' = v" and ev: "evolves m a"
    by (simp_all add: agree_def r r')
  show ?thesis
  proof (cases v)
    case (Inl e)
    with v ev show ?thesis by (simp add: r r' agree_def)
  next
    case (Inr y)
    with v assms(2) [OF ev] show ?thesis by (simp add: r r')
  qed
qed

lemma evolves_weight:
  assumes "evolves m a" "\<not> is_buffer k"
  shows "state_dict a k = state_dict m k"
  using assms by (simp add: evolves_def same_weights_def)

lemma Conv2d_agree:
  assumes "evolves m a"
  shows "agree (Conv2d pre cin cout k p b x m) (Conv2d pre cin cout k p b x a)"
proof -
  have "state_dict a (pre @ [''weight'']) = state_dict m (pre @ [''weight''])"
    "state_dict a (pre @ [''bias'']) = state_dict m (pre @ [''bias''])"
    using evolves_weight [OF assms] by simp_all
  then have "fst (Conv2d pre cin cout k p b x a) = fst (Conv2d pre cin cout k p b x m)"
    by (simp add: Conv2d_def split: list.splits)
  with assms show ?thesis
    by (simp add: agree_def)
qed

lemma ConvTranspose2d_agree:
  assumes "evolves m a"
  shows "agree (ConvTranspose2d pre cin cout x m) (ConvTranspose2d pre cin cout x a)"
proof -
  have "state_dict a (pre @ [''weight'']) = state_dict m (pre @ [''weight''])"
    "state_dict a (pre @ [''bias'']) = state_dict m (pre @ [''bias''])"
    using evolves_weight [OF assms] by simp_all
  then have "fst (ConvTranspose2d pre cin cout x a) = fst (ConvTranspose2d pre cin cout x m)"
    by (simp add: ConvTranspose2d_def split: list.splits)
  with assms show ?thesis
    by (simp add: agree_def)
qed

lemma ReLU_agree: "evolves m a \<Longrightarrow> agree (ReLU x m) (ReLU x a)"
  by (simp add: agree_def ReLU_def)

lemma MaxPool2d_agree: "evolves m a \<Longrightarrow> agree (MaxPool2d x m) (MaxPool2d x a)"
  by (simp add: agree_def MaxPool2d_def split: list.splits)

lemma pure_op_agree: "evolves m a \<Longrightarrow> agree (pure_op r m) (pure_op r a)"
  by (simp add: agree_def pure_op_def)

lemma BatchNorm2d_agree:
  assumes "evolves m a"
  shows "agree (BatchNorm2d pre c x m) (BatchNorm2d pre c x a)"
proof (cases "training m")
  case False
  with assms have "a = m" by (simp add: evolves_def)
  then show ?thesis by (simp add: agree_def)
next
  case True
  have tr: "training a"
    using assms True by (simp add: evolves_def same_weights_def)
  have w: "state_dict a (pre @ [''weight'']) = state_dict m (pre @ [''weight''])"
    "state_dict a (pre @ [''bias'']) = state_dict m (pre @ [''bias''])"
    using evolves_weight [OF assms] by simp_all
  have out: "fst (BatchNorm2d pre c x a) = fst (BatchNorm2d pre c x m)"
    using True tr w by (simp add: BatchNorm2d_def split: list.splits)
  have e1: "evolves m (snd (BatchNorm2d pre c x m))" and e2: "evolves a (snd (BatchNorm2d pre c x a))"
    by (rule BatchNorm2d_evolves)+
  have "same_weights (snd (BatchNorm2d pre c x m)) (snd (BatchNorm2d pre c x a))"
    using e1 e2 assms unfolding evolves_def same_weights_def by simp
  moreover have "training (snd (BatchNorm2d pre c x m))"
    using e1 True by (simp add: evolves_def same_weights_def)
  ultimately have "evolves (snd (BatchNorm2d pre c x m)) (snd (BatchNorm2d pre c x a))"
    by (simp add: evolves_def)
  with out show ?thesis
    by (simp add: agree_def)
qed

lemma Sequential_agree:
  assumes "\<And>l x m a. l \<in> set ls \<Longrightarrow> evolves m a \<Longrightarrow> agree (l x m) (l x a)"
    and "evolves m a"
  shows "agree (Sequential ls x m) (Sequential ls x a)"
  using assms
proof (induction ls arbitrary: x m a)
  case Nil
  then show ?case by (simp add: agree_def)
next
  case (Cons l ls)
  show ?case
    unfolding Sequential.simps
  proof (rule agree_and_then)
    show "agree (l x m) (l x a)"
      using Cons.prems by simp
    show "agree (Sequential ls y m') (Sequential ls y a')" if "evolves m' a'" for y m' a'
      using Cons.IH [OF _ that] Cons.prems(1) by simp
  qed
qed

lemma ConvBlock_agree:
  assumes "evolves m a"
  shows "agree (ConvBlock pre cin cout x m) (ConvBlock pre cin cout x a)"
  unfolding ConvBlock_def
  by (rule Sequential_agree [OF _ assms])
     (auto simp: Conv2d_agree BatchNorm2d_agree ReLU_agree)

lemma UpBlock_agree:
  assumes "evolves m a"
  shows "agree (UpBlock_forward pre cin cout x skip m) (UpBlock_forward pre cin cout x skip a)"
  unfolding UpBlock_forward_def
  by (intro agree_and_then ConvTranspose2d_agree pure_op_agree ConvBlock_agree assms)

lemma ConvBlock_agree_enc1:
  assumes "evolves m a"
  shows "agree (ConvBlock pre (in_ch m) (base_ch m) x m) (ConvBlock pre (in_ch a) (base_ch a) x a)"
  using ConvBlock_agree [OF assms] evolves_base(1,2) [OF assms] by simp

lemma ConvBlock_agree_enc2:
  assumes "evolves m a"
  shows "agree (ConvBlock pre (base_ch m) (base_ch m * j) x m) (ConvBlock pre (base_ch a) (base_ch a * j) x a)"
  using ConvBlock_agree [OF assms] evolves_base(1) [OF assms] by simp

lemma ConvBlock_agree_enc:
  assumes "evolves m a"
  shows "agree (ConvBlock pre (base_ch m * i) (base_ch m * j) x m)
           (ConvBlock pre (base_ch a * i) (base_ch a * j) x a)"
  using ConvBlock_agree [OF assms] evolves_base(1) [OF assms] by simp

lemma UpBlock_agree_dec:
  assumes "evolves m a"
  shows "agree (UpBlock_forward pre (base_ch m * i) (base_ch m * j) x skip m)
           (UpBlock_forward pre (base_ch a * i) (base_ch a * j) x skip a)"
  using UpBlock_agree [OF assms] evolves_base(1) [OF assms] by simp

lemma UpBlock_agree_dec1:
  assumes "evolves m a"
  shows "agree (UpBlock_forward pre (base_ch m * i) (base_ch m) x skip m)
           (UpBlock_forward pre (base_ch a * i) (base_ch a) x skip a)"
  using UpBlock_agree [OF assms] evolves_base(1) [OF assms] by simp

lemma Conv2d_agree_out:
  assumes "evolves m a"
  shows "agree (Conv2d pre (base_ch m) (out_ch m) k p b x m) (Conv2d pre (base_ch a) (out_ch a) k p b x a)"
  using Conv2d_agree [OF assms] evolves_base(1,3) [OF assms] by simp

lemma forward_agree:
  assumes "evolves m a"
  shows "agree (forward x m) (forward x a)"
  unfolding forward_def using assms
  apply (intro agree_and_then)
  apply (erule ConvBlock_agree_enc1 ConvBlock_agree_enc2 ConvBlock_agree_enc UpBlock_agree_dec
           UpBlock_agree_dec1 Conv2d_agree_out MaxPool2d_agree)+
  done

lemma sample_model_fields [simp]:
  "in_ch sample_model = 1" "out_ch sample_model = 2" "base_ch sample_model = 64"
  "\<not> training sample_model"
  by (simp_all add: sample_model_def eval_mode_def)

lemma zeros_shape [simp]: "shape (zeros shp) = shp"
  by (simp add: zeros_def)

section \<open>Inputs too small for four poolings\<close>

lemma MaxPool2d_fail:
  assumes "shape x = [n, c, h, w]" "h < 2 \<or> w < 2"
  shows "MaxPool2d x m = (Inl (RuntimeError ''max_pool2d: Output size is too small''), m)"
proof -
  from assms(2) have "h div 2 = 0 \<or> w div 2 = 0"
    by auto
  with assms(1) show ?thesis
    by (simp add: MaxPool2d_def)
qed

lemma ConvBlock_eval_run:
  assumes "shape x = [n, cin, h, w]" "1 \<le> h" "1 \<le> w" "\<not> training m"
  obtains y where "ConvBlock pre cin cout x m = (Inr y, m)" and "shape y = [n, cout, h, w]"
proof -
  from assms(4) have tr: "training m \<longrightarrow> n * h * w \<noteq> 1"
    by simp
  obtain y m' where y: "ConvBlock pre cin cout x m = (Inr y, m')" "shape y = [n, cout, h, w]"
      "evolves m m'"
    using ConvBlock_run [OF assms(1-3) tr] by blast
  from y(3) assms(4) have "m' = m"
    by (simp add: evolves_def)
  with y(1,2) that show ?thesis
    by blast
qed

lemma forward_too_small:
  assumes x: "shape x = [n, in_ch m, h, w]" and h: "8 \<le> h" and w: "8 \<le> w"
    and small: "h < 16 \<or> w < 16" and ev: "\<not> training m"
  shows "forward x m = (Inl (RuntimeError ''max_pool2d: Output size is too small''), m)"
proof -
  define B where "B = base_ch m"
  define h2 where "h2 = h div 2"
  define h4 where "h4 = h2 div 2"
  define h8 where "h8 = h4 div 2"
  define w2 where "w2 = w div 2"
  define w4 where "w4 = w2 div 2"
  define w8 where "w8 = w4 div 2"
  have hs: "1 \<le> h" "2 \<le> h" "1 \<le> h2" "2 \<le> h2" "1 \<le> h4" "2 \<le> h4" "1 \<le> h8"
    using h unfolding h2_def h4_def h8_def by simp_all
  have ws: "1 \<le> w" "2 \<le> w" "1 \<le> w2" "2 \<le> w2" "1 \<le> w4" "2 \<le> w4" "1 \<le> w8"
    using w unfolding w2_def w4_def w8_def by simp_all
  have last: "h8 < 2 \<or> w8 < 2"
    using small unfolding h2_def h4_def h8_def w2_def w4_def w8_def by auto
  obtain e1 where e1: "ConvBlock [''enc1''] (in_ch m) B x m = (Inr e1, m)"
      and se1: "shape e1 = [n, B, h, w]"
    using ConvBlock_eval_run [OF x hs(1) ws(1) ev] by blast
  obtain p1 where p1: "MaxPool2d e1 m = (Inr p1, m)" and sp1: "shape p1 = [n, B, h2, w2]"
    using MaxPool2d_run [OF se1 hs(2) ws(2)] unfolding h2_def w2_def by blast
  obtain e2 where e2: "ConvBlock [''enc2''] B (B * 2) p1 m = (Inr e2, m)"
      and se2: "shape e2 = [n, B * 2, h2, w2]"
    using ConvBlock_eval_run [OF sp1 hs(3) ws(3) ev] by blast
  obtain p2 where p2: "MaxPool2d e2 m = (Inr p2, m)" and sp2: "shape p2 = [n, B * 2, h4, w4]"
    using MaxPool2d_run [OF se2 hs(4) ws(4)] unfolding h4_def w4_def by blast
  obtain e3 where e3: "ConvBlock [''enc3''] (B * 2) (B * 4) p2 m = (Inr e3, m)"
      and se3: "shape e3 = [n, B * 4, h4, w4]"
    using ConvBlock_eval_run [OF sp2 hs(5) ws(5) ev] by blast
  obtain p3 where p3: "MaxPool2d e3 m = (Inr p3, m)" and sp3: "shape p3 = [n, B * 4, h8, w8]"
    using MaxPool2d_run [OF se3 hs(6) ws(6)] unfolding h8_def w8_def by blast
  obtain e4 where e4: "ConvBlock [''enc4''] (B * 4) (B * 8) p3 m = (Inr e4, m)"
      and se4: "shape e4 = [n, B * 8, h8, w8]"
    using ConvBlock_eval_run [OF sp3 hs(7) ws(7) ev] by blast
  have p4: "MaxPool2d e4 m = (Inl (RuntimeError ''max_pool2d: Output size is too small''), m)"
    by (rule MaxPool2d_fail [OF se4 last])
  show ?thesis
    unfolding forward_def B_def [symmetric] e1 and_then_Inr p1 e2 p2 e3 p3 e4 p4 and_then_Inl ..
qed

lemma halves_differ_by_one:
  fixes d :: int
  shows "d - d div 2 = d div 2 \<or> d - d div 2 = d div 2 + 1"
  by presburger

lemma UpBlock_eval_run:
  assumes "shape x = [n, cin, h, w]" "shape skip = [n, cout, h', w']" "1 \<le> h'" "1 \<le> w'"
    and "\<not> training m"
  obtains y where "UpBlock_forward pre cin cout x skip m = (Inr y, m)"
    and "shape y = [n, cout, h', w']"
proof -
  from assms(5) have tr: "training m \<longrightarrow> n * h' * w' \<noteq> 1"
    by simp
  obtain y m' where y: "UpBlock_forward pre cin cout x skip m = (Inr y, m')"
      "shape y = [n, cout, h', w']" "evolves m m'"
    using UpBlock_run [OF assms(1-4) tr] by blast
  from y(3) assms(5) have "m' = m"
    by (simp add: evolves_def)
  with y(1,2) that show ?thesis
    by blast
qed

section \<open>The normalisation constants\<close>

text \<open>
  Claim C2.  For every luminance \<open>L\<close> between 0 and 100, normalising by \<open>L / 50 - 1\<close> as
  \<open>preprocess_image\<close> does and denormalising by \<open>(x + 1) * 50\<close> as \<open>lab_denormalize\<close> does gives
  \<open>L\<close> back; for every chrominance value \<open>v\<close> between -128 and 128, dividing by 128 and then
  multiplying by 128 as \<open>lab_denormalize\<close> does gives \<open>v\<close> back.  The arithmetic is exact (real
  numbers); rounding of floating-point numbers is not part of the model.
\<close>

theorem normalization_round_trip:
  "(0 \<le> L \<and> L \<le> 100 \<longrightarrow> L_denorm (L_norm L) = L)
   \<and> (- 128 \<le> v \<and> v \<le> 128 \<longrightarrow> ab_denorm (ab_norm v) = v)"
  by (simp add: L_norm_def L_denorm_def ab_denorm_def ab_norm_def)

theorem normalization_round_trip_witness:
  "(0::real) \<le> 50 \<and> (50::real) \<le> 100 \<and> L_denorm (L_norm 50) = 50
   \<and> - 128 \<le> (- 64::real) \<and> (- 64::real) \<le> 128 \<and> ab_denorm (ab_norm (- 64)) = - 64"
  using normalization_round_trip [of 50 "- 64"] by simp

section \<open>The loading block\<close>

text \<open>
  Claim C10.  The loading block should leave \<open>pathlib.PosixPath\<close> bound to its original
  class on every outcome.  The code restores the binding only on the line after
  \<open>torch.load\<close>, which is skipped when \<open>torch.load\<close> raises: with the checkpoint file absent,
  and with a file that cannot be unpickled, \<open>pathlib.PosixPath\<close> is left bound to
  \<open>pathlib.WindowsPath\<close>.
\<close>

theorem posix_path_left_rebound:
  "pathlib_PosixPath (projr (startup (sample_env Absent))) = WindowsPath
   \<and> pathlib_PosixPath (projr (startup (sample_env (Unreadable ''invalid load key'')))) = WindowsPath"
  by (simp add: startup_Absent startup_Unreadable)

text \<open>
  Claim C4.  For a checkpoint that is a dictionary, the object handed to
  \<open>load_state_dict\<close> is the entry under \<open>model_state\<close> if there is one; otherwise the entry
  under \<open>model_state_dict\<close> if there is one; otherwise the entry under \<open>state_dict\<close> if there
  is one; otherwise the dictionary itself.
\<close>

theorem checkpoint_resolution_order:
  "load_checkpoint (PDict kvs) m =
     load_state_dict
       (case map_of kvs ''model_state'' of
          Some sd \<Rightarrow> sd
        | None \<Rightarrow>
            (case map_of kvs ''model_state_dict'' of
               Some sd \<Rightarrow> sd
             | None \<Rightarrow>
                 (case map_of kvs ''state_dict'' of
                    Some sd \<Rightarrow> sd
                  | None \<Rightarrow> PDict kvs))) m"
  by (auto simp: load_checkpoint_def contains_PDict getitem_def split: option.splits)

section \<open>Failures of decoding\<close>

lemma colorize_decode_failure:
  assumes "take 6 ct = ''image/''" and "preprocess_image lb body = Inl e"
  shows "colorize lb \<lparr>content_type = Some ct, contents = body\<rparr> s = (HTTPException 500 (Str_of e), s)"
  using assms by (simp add: colorize_def colorize_body_def)

text \<open>
  Claim C7, as the code has it.  Whatever exception \<open>preprocess_image\<close> raises ends in the
  handler's blanket \<open>except Exception\<close>: the caller receives status 500 with the text of
  that exception, and the state of the process is unchanged.  For bytes that are not an
  image the exception is Pillow's \<open>UnidentifiedImageError\<close>; for a file whose pixel data
  stops early it is \<open>OSError\<close>; an exception raised by the conversion to RGB is treated in
  the same way.  There is no separate \<open>DecodeError\<close> or \<open>UnsupportedFormat\<close>, and no
  client-error status for these failures.
\<close>

theorem decode_failures_are_server_errors:
  "(take 6 ct = ''image/'' \<and> preprocess_image lb body = Inl e \<longrightarrow>
      colorize lb \<lparr>content_type = Some ct, contents = body\<rparr> s = (HTTPException 500 (Str_of e), s))
   \<and> preprocess_image lb (Undecodable bs) = Inl UnidentifiedImageError
   \<and> preprocess_image lb (Truncated img) = Inl (OSError ''image file is truncated'')"
  by (simp add: colorize_decode_failure preprocess_image_def)

theorem decode_failures_are_server_errors_witness:
  "take 6 ''image/png'' = ''image/''
   \<and> preprocess_image sample_lib (Undecodable [0, 1, 2]) = Inl UnidentifiedImageError
   \<and> colorize sample_lib \<lparr>content_type = Some ''image/png'', contents = Undecodable [0, 1, 2]\<rparr>
         (projr (startup (sample_env Absent)))
        = (HTTPException 500 (Str_of UnidentifiedImageError), projr (startup (sample_env Absent)))
   \<and> preprocess_image sample_lib (Truncated gray_64) = Inl (OSError ''image file is truncated'')"
  using decode_failures_are_server_errors
    [of "''image/png''" sample_lib "Undecodable [0, 1, 2]" UnidentifiedImageError
        "projr (startup (sample_env Absent))" "[0, 1, 2]" gray_64]
  by simp

text \<open>
  Claim C7, as stated, fails: the body \<open>[0, 1, 2]\<close> sent as \<open>image/png\<close> is answered with
  status 500, a server error and not a client error, and so is a PNG whose pixel data
  stops early.
\<close>

theorem undecodable_upload_gets_500:
  "fst (colorize sample_lib junk_upload (projr (startup (sample_env Absent))))
     = HTTPException 500 (Str_of UnidentifiedImageError)
   \<and> \<not> is_client_error (fst (colorize sample_lib junk_upload (projr (startup (sample_env Absent)))))
   \<and> is_server_error (fst (colorize sample_lib junk_upload (projr (startup (sample_env Absent)))))
   \<and> fst (colorize sample_lib truncated_upload (projr (startup (sample_env Absent))))
     = HTTPException 500 (Str_of (OSError ''image file is truncated''))
   \<and> \<not> is_client_error (fst (colorize sample_lib truncated_upload (projr (startup (sample_env Absent)))))"
  by (simp add: junk_upload_def truncated_upload_def colorize_decode_failure preprocess_image_def
        is_client_error_def is_server_error_def)

section \<open>The size of the answer\<close>

text \<open>
  Claim C1.  In every state the process can be in, a request whose content type starts
  with \<open>image/\<close> and whose body decodes to an image of width \<open>W\<close> and height \<open>H\<close> (both
  positive, in a mode Pillow converts to RGB) is answered with a PNG body that decodes to
  an image of size exactly \<open>(W, H)\<close>, whether or not \<open>W\<close> and \<open>H\<close> are multiples of 16: the
  network always runs on the 256 x 256 resampling, and the last step resamples to the
  size recorded by \<open>preprocess_image\<close>.
\<close>

theorem output_size_is_input_size:
  assumes "reachable lb env s"
    and "content_type upl = Some ct" and "take 6 ct = ''image/''"
    and "contents upl = Encoded img" and "rgb_convertible lb (mode img)"
    and "img_size img = (W, H)" and "0 < W" and "0 < H"
  shows "\<exists>out. fst (colorize lb upl s) = Response (Encoded out) ''image/png'' \<and> img_size out = (W, H)"
proof -
  from reachable_arch [OF assms(1)]
  have m: "in_ch (model s) = 1" "out_ch (model s) = 2"
    by simp_all
  obtain out m' where "colorize lb upl s = (Response (Encoded out) ''image/png'', s\<lparr>model := m'\<rparr>)"
      and "img_size out = (W, H)"
    using colorize_run [OF m assms(2-8)] by blast
  then show ?thesis
    by simp
qed

theorem output_size_is_input_size_witness:
  "reachable sample_lib (sample_env Absent) (projr (startup (sample_env Absent)))
   \<and> (\<exists>out. fst (colorize sample_lib
                  \<lparr>content_type = Some ''image/jpeg'', contents = Encoded (gray_64\<lparr>img_size := (70, 45)\<rparr>)\<rparr>
                  (projr (startup (sample_env Absent))))
              = Response (Encoded out) ''image/png''
            \<and> img_size out = (70, 45))"
proof -
  have r: "reachable sample_lib (sample_env Absent) (projr (startup (sample_env Absent)))"
    by (rule reachable.started) (simp add: startup_Absent)
  have a: "content_type \<lparr>content_type = Some ''image/jpeg'', contents = Encoded (gray_64\<lparr>img_size := (70, 45)\<rparr>)\<rparr>
             = Some ''image/jpeg''"
    by simp
  have b: "take 6 ''image/jpeg'' = ''image/''"
    by simp
  have c: "contents \<lparr>content_type = Some ''image/jpeg'', contents = Encoded (gray_64\<lparr>img_size := (70, 45)\<rparr>)\<rparr>
             = Encoded (gray_64\<lparr>img_size := (70, 45)\<rparr>)"
    by simp
  have d: "rgb_convertible sample_lib (mode (gray_64\<lparr>img_size := (70, 45)\<rparr>))"
    by (simp add: gray_64_def sample_lib_def)
  have e: "img_size (gray_64\<lparr>img_size := (70, 45)\<rparr>) = (70, 45)"
    by simp
  have f: "0 < (70::nat)" "0 < (45::nat)"
    by simp_all
  from output_size_is_input_size [OF r a b c d e f] r show ?thesis
    by blast
qed

section \<open>Start-up without a checkpoint\<close>

text \<open>
  Claim C3, as the code has it.  With the checkpoint file absent the loading block does
  not raise: \<open>FileNotFoundError\<close> is caught and the line "WARNING: Model file not found at
  colorization_sdae_unet_best.pth. Inference will use random weights." is printed.
  Nothing is loaded: every parameter and buffer of the model has the value the
  constructor gave it.  The forward pass on the tensor of a request, of shape
  \<open>(1, 1, 256, 256)\<close>, still returns a tensor of shape \<open>(1, 2, 256, 256)\<close>.
\<close>

theorem missing_checkpoint_degrades:
  assumes "MODEL_PATH_file env = Absent"
  shows "\<exists>s. startup env = Inr s
           \<and> state_dict (model s) = state_dict (ColorizationSDAEUNet (initial_weights env) 1 2 64)
           \<and> stdout s = [Line (''WARNING: Model file not found at '' @ MODEL_PATH
                                 @ ''. Inference will use random weights.'')]
           \<and> (\<forall>x. shape x = [1, 1, 256, 256] \<longrightarrow>
                  (\<exists>y m'. forward x (model s) = (Inr y, m') \<and> shape y = [1, 2, 256, 256]))"
proof -
  let ?m = "ColorizationSDAEUNet (initial_weights env) 1 2 64"
  let ?s = "\<lparr>DEVICE = (if cuda_is_available env then ''cuda'' else ''cpu''),
          model = ?m, temp = PosixPath, checkpoint = None, pathlib_PosixPath = WindowsPath,
          stdout = [Line (''WARNING: Model file not found at '' @ MODEL_PATH
                          @ ''. Inference will use random weights.'')]\<rparr>"
  have run: "\<exists>y m'. forward x ?m = (Inr y, m') \<and> shape y = [1, 2, 256, 256]"
    if x: "shape x = [1, 1, 256, 256]" for x
  proof -
    have sx: "shape x = [1, in_ch ?m, 256, 256]"
      using x by simp
    have big: "16 \<le> (256::nat)"
      by simp
    have tr: "training ?m \<longrightarrow> 1 * (256 div 16) * (256 div 16) \<noteq> (1::nat)"
      by simp
    obtain y m' where "forward x ?m = (Inr y, m')" "shape y = [1, out_ch ?m, 256, 256]"
      using forward_run [OF sx big big tr] by blast
    then show ?thesis
      by simp
  qed
  have "startup env = Inr ?s"
    by (rule startup_Absent [OF assms])
  moreover have "state_dict (model ?s) = state_dict ?m"
    by simp
  moreover have "stdout ?s = [Line (''WARNING: Model file not found at '' @ MODEL_PATH
                                     @ ''. Inference will use random weights.'')]"
    by simp
  moreover have "\<forall>x. shape x = [1, 1, 256, 256] \<longrightarrow>
                  (\<exists>y m'. forward x (model ?s) = (Inr y, m') \<and> shape y = [1, 2, 256, 256])"
    using run by simp
  ultimately show ?thesis
    by blast
qed

theorem missing_checkpoint_degrades_witness:
  "MODEL_PATH_file (sample_env Absent) = Absent
   \<and> (\<exists>s. startup (sample_env Absent) = Inr s
           \<and> stdout s = [Line (''WARNING: Model file not found at '' @ MODEL_PATH
                                 @ ''. Inference will use random weights.'')]
           \<and> (\<exists>y m'. forward (zeros [1, 1, 256, 256]) (model s) = (Inr y, m')
                  \<and> shape y = [1, 2, 256, 256]))"
proof -
  have a: "MODEL_PATH_file (sample_env Absent) = Absent"
    by simp
  have z: "shape (zeros [1, 1, 256, 256]) = [1, 1, 256, 256]"
    by (simp add: zeros_def)
  from missing_checkpoint_degrades [OF a] obtain s where
    s: "startup (sample_env Absent) = Inr s"
      "stdout s = [Line (''WARNING: Model file not found at '' @ MODEL_PATH
                         @ ''. Inference will use random weights.'')]"
      "\<forall>x. shape x = [1, 1, 256, 256] \<longrightarrow>
                  (\<exists>y m'. forward x (model s) = (Inr y, m') \<and> shape y = [1, 2, 256, 256])"
    by blast
  from s(3) z have "\<exists>y m'. forward (zeros [1, 1, 256, 256]) (model s) = (Inr y, m')
                  \<and> shape y = [1, 2, 256, 256]"
    by blast
  with a s(1,2) show ?thesis
    by blast
qed

text \<open>
  Claim C3, as stated, fails: after a start-up with the checkpoint file absent, which
  does not raise, no name of the module is bound to a truth value, so there is no
  "model loaded" flag for a caller to check.
\<close>

theorem no_status_flag:
  "\<not> isl (startup (sample_env Absent)) \<and> status_flags (projr (startup (sample_env Absent))) = []"
  by (simp add: startup_Absent status_flags_empty)

section \<open>The buffers of the model across requests\<close>

text \<open>
  Claim C6 says that no request changes the parameters or any other state held by the
  model.  \<open>model.eval()\<close> is called inside the \<open>try\<close>, after the checkpoint has been loaded,
  so it is skipped when loading raises and the model serves requests in training mode.
  Then every forward pass updates the buffers of each \<open>BatchNorm2d\<close>: after a start-up
  with the checkpoint file absent, the counter \<open>num_batches_tracked\<close> of the last
  normalisation layer is 0, and after one request for the mid-gray image it is 1.
\<close>

theorem buffers_change_when_checkpoint_missing:
  "state_dict (model (projr (startup (sample_env Absent))))
     [''up1'', ''conv'', ''block'', ''4'', ''num_batches_tracked''] [] = 0
   \<and> state_dict (model (snd (colorize sample_lib gray_upload (projr (startup (sample_env Absent))))))
     [''up1'', ''conv'', ''block'', ''4'', ''num_batches_tracked''] [] = 1"
proof -
  define s where "s = projr (startup (sample_env Absent))"
  have ms: "model s = ColorizationSDAEUNet (\<lambda>k idx. 0) 1 2 64"
    by (simp add: s_def startup_Absent)
  have m: "in_ch (model s) = 1" "out_ch (model s) = 2" and tr: "training (model s)"
    by (simp_all add: ms)
  have pos: "0 < (64::nat)"
    by simp
  have t6: "take 6 ''image/png'' = ''image/''"
    by simp
  obtain out m' where c: "colorize sample_lib gray_upload s
        = (Response (Encoded out) ''image/png'', s\<lparr>model := m'\<rparr>)"
      and cnt: "training (model s) \<longrightarrow>
           state_dict m' [''up1'', ''conv'', ''block'', ''4'', ''num_batches_tracked''] []
           = state_dict (model s) [''up1'', ''conv'', ''block'', ''4'', ''num_batches_tracked''] [] + 1"
    using colorize_run [OF m gray_upload_simps(1) t6 gray_upload_simps(2,4,3) pos pos]
    by blast
  have zero: "state_dict (model s) [''up1'', ''conv'', ''block'', ''4'', ''num_batches_tracked''] [] = 0"
    unfolding ms by (rule initial_count)
  from zero cnt tr
  have one: "state_dict m' [''up1'', ''conv'', ''block'', ''4'', ''num_batches_tracked''] [] = 1"
    by simp
  have after: "model (snd (colorize sample_lib gray_upload s)) = m'"
    unfolding c by simp
  show ?thesis
    unfolding s_def [symmetric] after using zero one by blast
qed

section \<open>Running the network twice\<close>

text \<open>
  A second forward pass on the same input, run on the state the first pass has left,
  returns the same tensor, in both modes of the model; in eval mode the first pass
  leaves the model as it was.
\<close>

lemma second_run_same_output:
  assumes "forward x m = (Inr y, m1)"
  shows "(\<exists>m2. forward x m1 = (Inr y, m2)) \<and> (\<not> training m \<longrightarrow> m1 = m)"
proof -
  have "evolves m (snd (forward x m))"
    by (rule forward_evolves)
  with assms have ev: "evolves m m1"
    by simp
  from forward_agree [OF ev, of x] assms have "fst (forward x m1) = Inr y"
    by (simp add: agree_def)
  then have "\<exists>m2. forward x m1 = (Inr y, m2)"
    by (cases "forward x m1") simp
  moreover from ev have "\<not> training m \<longrightarrow> m1 = m"
    by (simp add: evolves_def)
  ultimately show ?thesis
    by blast
qed

lemma fill_buffer_evolves:
  assumes "is_buffer k" and "training m"
  shows "evolves m (fill_buffer k v m)"
proof -
  have "state_dict (fill_buffer k v m) k' = state_dict m k'" if "\<not> is_buffer k'" for k'
    using that assms(1) by (auto simp: fill_buffer_def)
  then show ?thesis
    using assms(2) by (simp add: evolves_def same_weights_def fill_buffer_def)
qed

text \<open>
  Claim C5 says that two inference calls on the same input give the same chrominance
  tensor, the normalisation layers using frozen running statistics.  \<open>model.eval()\<close> is
  skipped when loading the checkpoint raises, and the model then serves in training mode.
  After a start-up with the checkpoint file absent: the model is in training mode; a
  forward pass moves the counter \<open>num_batches_tracked\<close> of the last normalisation layer
  from 0 to 1, so the running statistics are not frozen; the output does not change when
  the running mean of the first normalisation layer is overwritten with 5, so the running
  statistics are not what the layers normalise with.  The second forward pass still
  returns the tensor of the first.
\<close>

theorem running_statistics_not_frozen_when_checkpoint_missing:
  "training (model (projr (startup (sample_env Absent))))
   \<and> (\<exists>y m1 m2.
        forward (zeros [1, 1, 256, 256]) (model (projr (startup (sample_env Absent)))) = (Inr y, m1)
        \<and> state_dict (model (projr (startup (sample_env Absent))))
             [''up1'', ''conv'', ''block'', ''4'', ''num_batches_tracked''] [] = 0
        \<and> state_dict m1 [''up1'', ''conv'', ''block'', ''4'', ''num_batches_tracked''] [] = 1
        \<and> forward (zeros [1, 1, 256, 256]) m1 = (Inr y, m2))
   \<and> fst (forward (zeros [1, 1, 256, 256])
            (fill_buffer [''enc1'', ''block'', ''1'', ''running_mean''] 5
               (model (projr (startup (sample_env Absent))))))
       = fst (forward (zeros [1, 1, 256, 256]) (model (projr (startup (sample_env Absent)))))"
proof -
  define m where "m = model (projr (startup (sample_env Absent)))"
  have ms: "m = ColorizationSDAEUNet (\<lambda>k idx. 0) 1 2 64"
    by (simp add: m_def startup_Absent)
  have tr: "training m"
    by (simp add: ms)
  have sx: "shape (zeros [1, 1, 256, 256]) = [1, in_ch m, 256, 256]"
    by (simp add: ms)
  have big: "16 \<le> (256::nat)"
    by simp
  have tr16: "training m \<longrightarrow> 1 * (256 div 16) * (256 div 16) \<noteq> (1::nat)"
    by simp
  obtain y m1 where first: "forward (zeros [1, 1, 256, 256]) m = (Inr y, m1)"
      and cnt: "training m \<longrightarrow>
           state_dict m1 [''up1'', ''conv'', ''block'', ''4'', ''num_batches_tracked''] []
           = state_dict m [''up1'', ''conv'', ''block'', ''4'', ''num_batches_tracked''] [] + 1"
    using forward_run [OF sx big big tr16] by blast
  have zero: "state_dict m [''up1'', ''conv'', ''block'', ''4'', ''num_batches_tracked''] [] = 0"
    unfolding ms by (rule initial_count)
  from zero cnt tr
  have one: "state_dict m1 [''up1'', ''conv'', ''block'', ''4'', ''num_batches_tracked''] [] = 1"
    by simp
  from second_run_same_output [OF first]
  obtain m2 where second: "forward (zeros [1, 1, 256, 256]) m1 = (Inr y, m2)"
    by blast
  have "is_buffer [''enc1'', ''block'', ''1'', ''running_mean'']"
    by (simp add: is_buffer_def)
  then have "evolves m (fill_buffer [''enc1'', ''block'', ''1'', ''running_mean''] 5 m)"
    using tr by (rule fill_buffer_evolves)
  from forward_agree [OF this, of "zeros [1, 1, 256, 256]"]
  have same: "fst (forward (zeros [1, 1, 256, 256])
                     (fill_buffer [''enc1'', ''block'', ''1'', ''running_mean''] 5 m))
                = fst (forward (zeros [1, 1, 256, 256]) m)"
    by (simp add: agree_def)
  show ?thesis
    unfolding m_def [symmetric] using tr first zero one second same by blast
qed

section \<open>The shape of the network's output\<close>

text \<open>
  Claim C9, as the code has it.  With the model in eval mode, as it is after a successful
  load, every luminance tensor of shape \<open>(N, 1, H, W)\<close> with \<open>H\<close> and \<open>W\<close> at least 16 is
  mapped to a tensor of shape \<open>(N, 2, H, W)\<close>, and this tensor is what the 1x1 convolution
  \<open>out_conv\<close> returns on the output of the last decoder stage, with nothing applied after
  it.
\<close>

theorem forward_keeps_resolution:
  assumes "\<not> training m" and "in_ch m = 1" and "out_ch m = 2"
    and "shape x = [n, 1, h, w]" and "16 \<le> h" and "16 \<le> w"
  shows "\<exists>y m' d1. forward x m = (Inr y, m') \<and> shape y = [n, 2, h, w]
           \<and> shape d1 = [n, base_ch m, h, w]
           \<and> Conv2d [''out_conv''] (base_ch m) 2 1 0 True d1 m' = (Inr y, m')"
proof -
  have sx: "shape x = [n, in_ch m, h, w]"
    using assms(2,4) by simp
  have tr: "training m \<longrightarrow> n * (h div 16) * (w div 16) \<noteq> 1"
    using assms(1) by simp
  obtain y m' d1 where "forward x m = (Inr y, m')" "shape y = [n, out_ch m, h, w]"
      "shape d1 = [n, base_ch m, h, w]"
      "Conv2d [''out_conv''] (base_ch m) (out_ch m) 1 0 True d1 m' = (Inr y, m')"
    using forward_run [OF sx assms(5,6) tr] by blast
  then show ?thesis
    using assms(3) by auto
qed

theorem forward_keeps_resolution_witness:
  "\<not> training sample_model \<and> in_ch sample_model = 1 \<and> out_ch sample_model = 2
   \<and> shape (zeros [3, 1, 17, 31]) = [3, 1, 17, 31] \<and> (16::nat) \<le> 17 \<and> (16::nat) \<le> 31
   \<and> (\<exists>y m' d1. forward (zeros [3, 1, 17, 31]) sample_model = (Inr y, m')
          \<and> shape y = [3, 2, 17, 31]
          \<and> shape d1 = [3, base_ch sample_model, 17, 31]
          \<and> Conv2d [''out_conv''] (base_ch sample_model) 2 1 0 True d1 m' = (Inr y, m'))"
proof -
  have a: "\<not> training sample_model" "in_ch sample_model = 1" "out_ch sample_model = 2"
    by simp_all
  have b: "shape (zeros [3, 1, 17, 31]) = [3, 1, 17, 31]"
    by simp
  have c: "(16::nat) \<le> 17" "(16::nat) \<le> 31"
    by simp_all
  from forward_keeps_resolution [OF a b c] a b c show ?thesis
    by blast
qed

text \<open>
  Claim C9, as stated for every input, fails: on an 8 x 8 input the fourth pooling has a
  1 x 1 input and raises.
\<close>

theorem forward_fails_on_8_by_8:
  "forward (zeros [1, 1, 8, 8]) sample_model
     = (Inl (RuntimeError ''max_pool2d: Output size is too small''), sample_model)"
proof -
  have "shape (zeros [1, 1, 8, 8]) = [1, in_ch sample_model, 8, 8]"
    by simp
  then show ?thesis
    by (rule forward_too_small) simp_all
qed

section \<open>Skip connections of another size\<close>

text \<open>
  Claim C8, as the code has it.  In \<open>UpBlock.forward\<close>, when the last two axes of the
  upsampled tensor differ from those of the skip tensor, the upsampled tensor is padded
  (or cropped, for a negative difference) to exactly the size of the skip tensor, the
  amount after being the amount before or one more; so with the model in eval mode a
  decoder stage never raises on a skip tensor of another size, and the forward pass
  returns on every input with height and width at least 16, multiples of 16 or not.
\<close>

theorem skip_mismatch_is_padded:
  "(shape u = [n, c, h, w] \<and> shape skip = [n', c', h', w'] \<and> (h, w) \<noteq> (h', w') \<longrightarrow>
      (\<exists>l r t b y. match_skip u skip = pad u l r t b \<and> pad u l r t b = Inr y
          \<and> shape y = [n, c, h', w']
          \<and> l + r = int w' - int w \<and> t + b = int h' - int h
          \<and> (r = l \<or> r = l + 1) \<and> (b = t \<or> b = t + 1)))
   \<and> (\<not> training m \<and> shape v = [n, cin, h, w] \<and> shape e = [n, cout, h', w']
        \<and> 1 \<le> h' \<and> 1 \<le> w' \<longrightarrow>
      (\<exists>y. UpBlock_forward pre cin cout v e m = (Inr y, m) \<and> shape y = [n, cout, h', w']))
   \<and> (\<not> training m \<and> shape x = [k, in_ch m, hh, ww] \<and> 16 \<le> hh \<and> 16 \<le> ww \<longrightarrow>
      (\<exists>y. forward x m = (Inr y, m) \<and> shape y = [k, out_ch m, hh, ww]))"
proof (intro conjI impI)
  assume a: "shape u = [n, c, h, w] \<and> shape skip = [n', c', h', w'] \<and> (h, w) \<noteq> (h', w')"
  define dy where "dy = int h' - int h"
  define dx where "dx = int w' - int w"
  obtain y where y: "match_skip u skip = Inr y" "shape y = [n, c, h', w']"
    using match_skip_run [of u n c h w skip n' c' h' w'] a by blast
  have ms: "match_skip u skip = pad u (dx div 2) (dx - dx div 2) (dy div 2) (dy - dy div 2)"
    using a by (simp add: match_skip_def Let_def dx_def dy_def)
  have "dx div 2 + (dx - dx div 2) = int w' - int w" "dy div 2 + (dy - dy div 2) = int h' - int h"
    by (simp_all add: dx_def dy_def)
  moreover have "dx - dx div 2 = dx div 2 \<or> dx - dx div 2 = dx div 2 + 1"
    "dy - dy div 2 = dy div 2 \<or> dy - dy div 2 = dy div 2 + 1"
    by (rule halves_differ_by_one)+
  ultimately show "\<exists>l r t b y. match_skip u skip = pad u l r t b \<and> pad u l r t b = Inr y
          \<and> shape y = [n, c, h', w']
          \<and> l + r = int w' - int w \<and> t + b = int h' - int h
          \<and> (r = l \<or> r = l + 1) \<and> (b = t \<or> b = t + 1)"
    using ms y by metis
next
  assume a: "\<not> training m \<and> shape v = [n, cin, h, w] \<and> shape e = [n, cout, h', w']
        \<and> 1 \<le> h' \<and> 1 \<le> w'"
  then show "\<exists>y. UpBlock_forward pre cin cout v e m = (Inr y, m) \<and> shape y = [n, cout, h', w']"
    using UpBlock_eval_run [of v n cin h w e cout h' w' m pre] by blast
next
  assume a: "\<not> training m \<and> shape x = [k, in_ch m, hh, ww] \<and> 16 \<le> hh \<and> 16 \<le> ww"
  then have tr: "training m \<longrightarrow> k * (hh div 16) * (ww div 16) \<noteq> 1"
    by simp
  obtain y m' where y: "forward x m = (Inr y, m')" "shape y = [k, out_ch m, hh, ww]" "evolves m m'"
    using forward_run [of x k m hh ww] a tr by blast
  from y(3) a have "m' = m"
    by (simp add: evolves_def)
  with y(1,2) show "\<exists>y. forward x m = (Inr y, m) \<and> shape y = [k, out_ch m, hh, ww]"
    by blast
qed

theorem skip_mismatch_is_padded_witness:
  "shape (zeros [1, 64, 16, 16]) = [1, 64, 16, 16] \<and> shape (zeros [1, 64, 17, 17]) = [1, 64, 17, 17]
   \<and> (16::nat, 16::nat) \<noteq> (17, 17)
   \<and> (\<exists>l r t b y. match_skip (zeros [1, 64, 16, 16]) (zeros [1, 64, 17, 17])
                       = pad (zeros [1, 64, 16, 16]) l r t b
          \<and> pad (zeros [1, 64, 16, 16]) l r t b = Inr y
          \<and> shape y = [1, 64, 17, 17]
          \<and> l + r = 1 \<and> t + b = 1 \<and> (r = l \<or> r = l + 1) \<and> (b = t \<or> b = t + 1))
   \<and> \<not> training sample_model
   \<and> shape (zeros [1, 128, 16, 16]) = [1, 128, 16, 16]
   \<and> (\<exists>y. UpBlock_forward [''up1''] 128 64 (zeros [1, 128, 16, 16]) (zeros [1, 64, 17, 17]) sample_model
              = (Inr y, sample_model)
          \<and> shape y = [1, 64, 17, 17])
   \<and> shape (zeros [1, 1, 17, 17]) = [1, in_ch sample_model, 17, 17]
   \<and> (\<exists>y. forward (zeros [1, 1, 17, 17]) sample_model = (Inr y, sample_model)
          \<and> shape y = [1, 2, 17, 17])"
  using skip_mismatch_is_padded
    [where u = "zeros [1, 64, 16, 16]" and n = 1 and c = 64 and h = 16 and w = 16
       and skip = "zeros [1, 64, 17, 17]" and n' = 1 and c' = 64 and h' = 17 and w' = 17
       and m = sample_model and v = "zeros [1, 128, 16, 16]" and cin = 128
       and e = "zeros [1, 64, 17, 17]" and cout = 64 and pre = "[''up1'']"
       and x = "zeros [1, 1, 17, 17]" and k = 1 and hh = 17 and ww = 17]
  by simp

text \<open>
  Claim C8, as stated for every input whose resolution is not divisible by 16, fails: on
  a 15 x 15 input the fourth pooling has a 1 x 1 input and raises before any decoder
  stage runs.
\<close>

theorem forward_fails_on_15_by_15:
  "forward (zeros [1, 1, 15, 15]) sample_model
     = (Inl (RuntimeError ''max_pool2d: Output size is too small''), sample_model)"
proof -
  have "shape (zeros [1, 1, 15, 15]) = [1, in_ch sample_model, 15, 15]"
    by simp
  then show ?thesis
    by (rule forward_too_small) simp_all
qed

end
